theory Spec2Isabelle
  imports Complex_Main "HOL-Library.Sublist"
begin

section \<open>Lead evaluation and deduplication pipeline\<close>

text \<open>
  A shallow embedding of the lead pipeline: the document store manager
  (\<^verbatim>\<open>database/supabase_client.py\<close>), the vector store
  (\<^verbatim>\<open>embeddings/vector_store.py\<close>), the notifier
  (\<^verbatim>\<open>notifications/notifier.py\<close>), the scraper's evaluators and commit
  (\<^verbatim>\<open>scrapers/company_scraper.py\<close>), the orchestrator (\<^verbatim>\<open>main.py\<close>) and the
  dashboard's duplicate filter (\<^verbatim>\<open>app.py\<close>).

  Strings are lists of 8-bit characters; text outside ASCII is held as its UTF-8 bytes.
  Similarity scores and embedding components are real numbers.
\<close>

subsection \<open>Exceptions and configuration\<close>

datatype exn =
  KeyError | ValueError | AttributeError | IndexError | TypeError
  | DuplicateKeyError | PyMongoError | PineconeError | OpenAIError
  | JSONDecodeError | RequestException | NameError

definition VECTOR_DIMENSION :: nat where
  "VECTOR_DIMENSION = 1536"

definition SIMILARITY_THRESHOLD :: real where
  "SIMILARITY_THRESHOLD = 85 / 100"

subsection \<open>Data\<close>

text \<open>
  A lead is a Python dict; every key may be absent, and \<^verbatim>\<open>lead["k"]\<close> on an absent
  key raises KeyError. The same record type holds the stored document, which carries the
  embedding and the creation time as well.
\<close>

record lead =
  lead_id :: "string option"
  title :: "string option"
  url :: "string option"
  description :: "string option"
  raw_description :: "string option"
  source :: "string option"
  company :: "string option"
  category :: "string option"
  timestamp :: "string option"
  relevance_score :: "int option"
  relevance_explanation :: "string option"
  value_types :: "string list option"
  action_items :: "string list option"
  csm_value_explanation :: "string option"
  vector_embedding :: "real list option"
  created_at :: "string option"

definition getitem :: "'a option \<Rightarrow> exn + 'a" where
  "getitem v = (case v of None \<Rightarrow> Inl KeyError | Some x \<Rightarrow> Inr x)"

definition get_default :: "'a option \<Rightarrow> 'a \<Rightarrow> 'a" where
  "get_default v d = (case v of None \<Rightarrow> d | Some x \<Rightarrow> x)"

text \<open>The metadata dict stored beside a vector.\<close>

record metadata =
  m_title :: string
  m_url :: string
  m_source :: string
  m_company :: string
  m_relevance_score :: "int option"
  m_value_types :: "string list option"

text \<open>One entry of \<^verbatim>\<open>results["matches"]\<close>.\<close>

record match =
  match_id :: string
  score :: real
  match_metadata :: metadata

text \<open>The schema-constrained replies of the two evaluators and of the message generator.\<close>

record relevance =
  is_relevant :: bool
  rel_score :: int
  rel_explanation :: string

record csm_value =
  is_valuable :: bool
  value_type :: "string list"
  csm_action_items :: "string list"
  csm_explanation :: string

record message_structure =
  greeting :: "string option"
  main_points :: "string list option"
  action_suggestions :: "string list option"
  urgency_level :: "string option"

text \<open>
  What the chat completion for the Slack message can come back as: the call raises, the
  response has no tool call, the tool call has no arguments, the arguments are not JSON,
  or they parse to a structure.
\<close>

datatype completion =
  CompletionRaises | NoToolCalls | NoArguments | NotJson | Structure message_structure

record feed_entry =
  entry_title :: "string option"
  entry_description :: "string option"
  entry_link :: "string option"

subsection \<open>The outside world\<close>

text \<open>
  The services behind the clients are not part of the program. Their answers are the
  fields of a \<open>world\<close>: what the embedding endpoint returns for a text, the similarity
  metric of the vector index, which store calls raise, what the language model replies,
  and what the webhook answers.
\<close>

record world =
  embeddings_create :: "string \<Rightarrow> exn + real list"
  similarity :: "real list \<Rightarrow> real list \<Rightarrow> real"
  upsert_raises :: "string \<Rightarrow> bool"
  query_raises :: "real list \<Rightarrow> bool"
  find_one_raises :: "string \<Rightarrow> bool"
  insert_one_raises :: "lead \<Rightarrow> bool"
  read_back_raises :: "lead \<Rightarrow> bool"
  delete_one_raises :: "string \<Rightarrow> bool"
  relevance_completion :: "string \<Rightarrow> string \<Rightarrow> string \<Rightarrow> exn + relevance"
  value_completion :: "string \<Rightarrow> string \<Rightarrow> string \<Rightarrow> exn + csm_value"
  summary_completion :: "string \<Rightarrow> exn + string"
  message_completion :: "lead \<Rightarrow> completion"
  requests_post :: "string \<Rightarrow> string \<Rightarrow> exn + nat"
  soup_get_text :: "string \<Rightarrow> exn + string"
  html_unescape :: "string \<Rightarrow> string"
  uuid4 :: "nat \<Rightarrow> string"
  utcnow :: string
  SLACK_WEBHOOK_URL :: "string option"
  ENABLE_SLACK_NOTIFICATIONS :: bool

text \<open>
  The program's own state: the \<^verbatim>\<open>leads\<close> collection of the document store in
  insertion order, the vector index, and the texts posted to the webhook.
\<close>

record system =
  leads :: "lead list"
  pinecone_index :: "(string \<times> real list \<times> metadata) list"
  posts :: "string list"

subsection \<open>Strings\<close>

definition is_space :: "char \<Rightarrow> bool" where
  "is_space c = (of_char c \<in> {9, 10, 11, 12, 13, 28, 29, 30, 31, 32 :: nat})"

definition strip :: "string \<Rightarrow> string" where
  "strip s = rev (dropWhile is_space (rev (dropWhile is_space s)))"

subsection \<open>Document store\<close>

text \<open>
  \<^verbatim>\<open>insert_one\<close> on the collection. The manager creates a unique index on \<^verbatim>\<open>url\<close>,
  so an insert whose url is already stored raises.
\<close>

definition insert_one :: "world \<Rightarrow> system \<Rightarrow> lead \<Rightarrow> exn + system" where
  "insert_one w st data =
     (if insert_one_raises w data then Inl PyMongoError
      else if url data \<in> set (map url (leads st)) then Inl DuplicateKeyError
      else Inr (st\<lparr>leads := leads st @ [data]\<rparr>))"

text \<open>
  \<^verbatim>\<open>MongoDBManager.insert_lead\<close>. After the insert the document is read back by its
  \<^verbatim>\<open>_id\<close>; when that \<^verbatim>\<open>find_one\<close> raises, the handler returns None although the
  document is stored.
\<close>

definition insert_lead :: "world \<Rightarrow> system \<Rightarrow> lead \<Rightarrow> real list \<Rightarrow> system \<times> lead option" where
  "insert_lead w st lead_data embedding =
     (case getitem (lead_id lead_data) of Inl _ \<Rightarrow> (st, None) | Inr i \<Rightarrow>
     (case getitem (title lead_data) of Inl _ \<Rightarrow> (st, None) | Inr t \<Rightarrow>
     (case getitem (url lead_data) of Inl _ \<Rightarrow> (st, None) | Inr u \<Rightarrow>
     (case getitem (company lead_data) of Inl _ \<Rightarrow> (st, None) | Inr c \<Rightarrow>
      let data = \<lparr> lead_id = Some i, title = Some t, url = Some u,
                    description = Some (get_default (description lead_data) ''''),
                    raw_description = None,
                    source = Some (get_default (source lead_data) ''unknown''),
                    company = Some c,
                    category = Some (get_default (category lead_data) ''unknown''),
                    timestamp = Some (get_default (timestamp lead_data) (utcnow w)),
                    relevance_score = relevance_score lead_data,
                    relevance_explanation = relevance_explanation lead_data,
                    value_types = value_types lead_data,
                    action_items = action_items lead_data,
                    csm_value_explanation = csm_value_explanation lead_data,
                    vector_embedding = Some embedding,
                    created_at = Some (utcnow w) \<rparr>
      in (case insert_one w st data of
            Inl _ \<Rightarrow> (st, None)
          | Inr st' \<Rightarrow> if read_back_raises w data then (st', None) else (st', Some data))))))"

text \<open>
  Modelled from the spec: the callers import the manager from \<^verbatim>\<open>database.mongo_client\<close>
  and call its \<^verbatim>\<open>store_lead\<close>, which is not among the sources. The spec's document
  store offers \<^verbatim>\<open>insert(record)\<close> with uniqueness on \<^verbatim>\<open>url\<close>; it is taken to be the
  manager's \<^verbatim>\<open>insert_lead\<close>.
\<close>

definition store_lead :: "world \<Rightarrow> system \<Rightarrow> lead \<Rightarrow> real list \<Rightarrow> system \<times> lead option" where
  "store_lead w st lead_data embedding = insert_lead w st lead_data embedding"

text \<open>
  Modelled from the spec: the \<^verbatim>\<open>leads\<close> collection reached through the manager, with the
  spec's \<^verbatim>\<open>delete(id)\<close>. \<^verbatim>\<open>delete_one({"id": i})\<close> removes the first document whose
  \<^verbatim>\<open>id\<close> is \<open>i\<close>, if there is one; like every store call it may raise.
\<close>

fun remove_first :: "('a \<Rightarrow> bool) \<Rightarrow> 'a list \<Rightarrow> 'a list" where
  "remove_first P [] = []"
| "remove_first P (x # xs) = (if P x then xs else x # remove_first P xs)"

definition delete_one :: "world \<Rightarrow> system \<Rightarrow> string \<Rightarrow> exn + system" where
  "delete_one w st i =
     (if delete_one_raises w i then Inl PyMongoError
      else Inr (st\<lparr>leads := remove_first (\<lambda>d. lead_id d = Some i) (leads st)\<rparr>))"

text \<open>\<^verbatim>\<open>MongoDBManager.get_lead_by_url\<close>.\<close>

definition get_lead_by_url :: "world \<Rightarrow> system \<Rightarrow> string \<Rightarrow> lead option" where
  "get_lead_by_url w st u =
     (if find_one_raises w u then None
      else find (\<lambda>d. url d = Some u) (leads st))"

subsection \<open>Vector store\<close>

text \<open>\<^verbatim>\<open>VectorStore.generate_embedding\<close>: the handler logs and raises again.\<close>

definition generate_embedding :: "world \<Rightarrow> string \<Rightarrow> exn + real list" where
  "generate_embedding w text =
     (if strip text = [] then Inl ValueError
      else case embeddings_create w text of
             Inl e \<Rightarrow> Inl e
           | Inr embedding \<Rightarrow>
               if length embedding \<noteq> VECTOR_DIMENSION then Inl ValueError
               else Inr embedding)"

text \<open>\<^verbatim>\<open>index.upsert\<close>: the entry with the same id is replaced, a new id is added.\<close>

definition upsert :: "string \<times> real list \<times> metadata \<Rightarrow> (string \<times> real list \<times> metadata) list
    \<Rightarrow> (string \<times> real list \<times> metadata) list" where
  "upsert e ix = filter (\<lambda>x. fst x \<noteq> fst e) ix @ [e]"

text \<open>
  \<^verbatim>\<open>VectorStore.insert_vector\<close>. The metadata dict the callers pass always has keys, so
  only the id and the vector can be empty.
\<close>

definition insert_vector :: "world \<Rightarrow> system \<Rightarrow> string \<Rightarrow> real list \<Rightarrow> metadata \<Rightarrow> system \<times> bool" where
  "insert_vector w st i vector md =
     (if i = [] \<or> vector = [] then (st, False)
      else if upsert_raises w i then (st, False)
      else (st\<lparr>pinecone_index := upsert (i, vector, md) (pinecone_index st)\<rparr>, True))"

text \<open>
  \<^verbatim>\<open>index.query\<close>: the \<open>top_k\<close> stored vectors nearest to the query, best first, each
  with its score under the index's metric.
\<close>

definition index_query :: "world \<Rightarrow> system \<Rightarrow> real list \<Rightarrow> nat \<Rightarrow> match list" where
  "index_query w st vector top_k =
     take top_k (sort_key (\<lambda>m. - score m)
       (map (\<lambda>(i, v, md). \<lparr> match_id = i, score = similarity w vector v, match_metadata = md \<rparr>)
            (pinecone_index st)))"



text \<open>\<^verbatim>\<open>VectorStore.find_similar\<close>.\<close>

definition find_similar :: "world \<Rightarrow> system \<Rightarrow> real list \<Rightarrow> nat \<Rightarrow> match list" where
  "find_similar w st vector top_k =
     (if vector = [] then []
      else if query_raises w vector then []
      else index_query w st vector top_k)"

text \<open>\<^verbatim>\<open>VectorStore.check_duplicate\<close>.\<close>

definition check_duplicate :: "world \<Rightarrow> system \<Rightarrow> string \<Rightarrow> real \<Rightarrow> match option" where
  "check_duplicate w st text threshold =
     (if strip text = [] then None
      else case generate_embedding w text of
             Inl _ \<Rightarrow> None
           | Inr embedding \<Rightarrow>
               (case find_similar w st embedding 1 of
                  [] \<Rightarrow> None
                | r # _ \<Rightarrow> if score r > threshold then Some r else None))"

subsection \<open>Notifier\<close>

definition slack_enabled :: "world \<Rightarrow> bool" where
  "slack_enabled w = (ENABLE_SLACK_NOTIFICATIONS w \<and> SLACK_WEBHOOK_URL w \<noteq> None)"

fun join :: "string \<Rightarrow> string list \<Rightarrow> string" where
  "join sep [] = []"
| "join sep [x] = x"
| "join sep (x # y # ys) = x @ sep @ join sep (y # ys)"

definition magnifier :: string where
  "magnifier = [CHR 0xF0, CHR 0x9F, CHR 0x94, CHR 0x8D]"

definition pushpin :: string where
  "pushpin = [CHR 0xF0, CHR 0x9F, CHR 0x93, CHR 0x8C]"

definition bullet :: string where
  "bullet = [CHR 0xE2, CHR 0x80, CHR 0xA2]"

definition info_sign :: string where
  "info_sign = [CHR 0xE2, CHR 0x84, CHR 0xB9, CHR 0xEF, CHR 0xB8, CHR 0x8F]"

definition urgency_emojis :: "string \<Rightarrow> string" where
  "urgency_emojis level =
     (if level = ''high'' then [CHR 0xF0, CHR 0x9F, CHR 0x9A, CHR 0xA8]
      else if level = ''medium'' then [CHR 0xE2, CHR 0x9A, CHR 0xA1]
      else info_sign)"

text \<open>\<^verbatim>\<open>str.title()\<close> on ASCII letters.\<close>

definition is_upper :: "char \<Rightarrow> bool" where
  "is_upper c = (65 \<le> (of_char c :: nat) \<and> (of_char c :: nat) \<le> 90)"

definition is_lower :: "char \<Rightarrow> bool" where
  "is_lower c = (97 \<le> (of_char c :: nat) \<and> (of_char c :: nat) \<le> 122)"

definition to_upper :: "char \<Rightarrow> char" where
  "to_upper c = (if is_lower c then char_of (of_char c - (32 :: nat)) else c)"

definition to_lower :: "char \<Rightarrow> char" where
  "to_lower c = (if is_upper c then char_of (of_char c + (32 :: nat)) else c)"

fun title_case :: "bool \<Rightarrow> string \<Rightarrow> string" where
  "title_case prev [] = []"
| "title_case prev (c # cs) =
     (if is_upper c \<or> is_lower c
      then (if prev then to_lower c else to_upper c) # title_case True cs
      else c # title_case False cs)"

text \<open>\<^verbatim>\<open>LeadNotifier._generate_fallback_message\<close>.\<close>

definition generate_fallback_message :: "lead \<Rightarrow> exn + string" where
  "generate_fallback_message lead =
     (case getitem (company lead) of Inl e \<Rightarrow> Inl e | Inr c \<Rightarrow>
     (case getitem (url lead) of Inl e \<Rightarrow> Inl e | Inr u \<Rightarrow>
     (case getitem (title lead) of Inl e \<Rightarrow> Inl e | Inr t \<Rightarrow>
      Inr (magnifier @ '' *New Lead Alert for '' @ c @ ''*'' @ [CHR 0x0A]
           @ ''<'' @ u @ ''|'' @ t @ ''>'' @ [CHR 0x0A, CHR 0x0A]
           @ ''Check the article for potential opportunities.''))))"

text \<open>The message built from a structure that has all four required fields.\<close>

definition format_message :: "lead \<Rightarrow> message_structure \<Rightarrow> string" where
  "format_message lead ms =
     (let level = get_default (urgency_level ms) ''low''
      in join [CHR 0x0A]
        ([get_default (greeting ms) ''Hi CSM team!'', [],
          magnifier @ '' *New Lead Alert for ''
            @ get_default (company lead) ''Unknown Company'' @ ''*'',
          ''<'' @ get_default (url lead) ''#'' @ ''|''
            @ get_default (title lead) ''No Title'' @ ''>'',
          [], ''*Why this matters:*'']
         @ map (\<lambda>point. bullet @ '' '' @ point) (get_default (main_points ms) [])
         @ [[], ''*Suggested Actions:*'']
         @ map (\<lambda>action. pushpin @ '' '' @ action) (get_default (action_suggestions ms) [])
         @ [[], urgency_emojis level @ '' *Urgency Level:* '' @ title_case False level]))"

definition has_required_fields :: "message_structure \<Rightarrow> bool" where
  "has_required_fields ms =
     (greeting ms \<noteq> None \<and> main_points ms \<noteq> None
      \<and> action_suggestions ms \<noteq> None \<and> urgency_level ms \<noteq> None)"

text \<open>
  \<^verbatim>\<open>LeadNotifier._generate_slack_message\<close>. Each early return calls the fallback inside
  the \<^verbatim>\<open>try\<close>; when the fallback raises, the handler calls it once more and that
  exception leaves the function.
\<close>

definition fallback_in_try :: "lead \<Rightarrow> exn + string" where
  "fallback_in_try lead =
     (case generate_fallback_message lead of
        Inr m \<Rightarrow> Inr m
      | Inl _ \<Rightarrow> generate_fallback_message lead)"

definition generate_slack_message :: "world \<Rightarrow> lead \<Rightarrow> exn + string" where
  "generate_slack_message w lead =
     (case message_completion w lead of
        CompletionRaises \<Rightarrow> generate_fallback_message lead
      | NoToolCalls \<Rightarrow> fallback_in_try lead
      | NoArguments \<Rightarrow> fallback_in_try lead
      | NotJson \<Rightarrow> fallback_in_try lead
      | Structure ms \<Rightarrow>
          if \<not> has_required_fields ms then fallback_in_try lead
          else Inr (format_message lead ms))"

text \<open>
  \<^verbatim>\<open>LeadNotifier.send_slack_notification\<close>. \<open>posts\<close> records each text handed to
  \<^verbatim>\<open>requests.post\<close>. The closing log line reads \<^verbatim>\<open>lead['company']\<close> and
  \<^verbatim>\<open>lead['title']\<close> inside the \<^verbatim>\<open>try\<close>.
\<close>

definition send_slack_notification :: "world \<Rightarrow> system \<Rightarrow> lead \<Rightarrow> system \<times> bool" where
  "send_slack_notification w st lead =
     (if \<not> slack_enabled w then (st, False)
      else case generate_slack_message w lead of
             Inl _ \<Rightarrow> (st, False)
           | Inr message \<Rightarrow>
               (case SLACK_WEBHOOK_URL w of
                  None \<Rightarrow> (st, False)
                | Some hook \<Rightarrow>
                    let st' = st\<lparr>posts := posts st @ [message]\<rparr>
                    in (case requests_post w hook message of
                         Inl _ \<Rightarrow> (st', False)
                       | Inr status_code \<Rightarrow>
                           if status_code \<noteq> 200 then (st', False)
                           else if company lead = None \<or> title lead = None then (st', False)
                           else (st', True))))"

text \<open>\<^verbatim>\<open>LeadNotifier.notify\<close>.\<close>

definition notify :: "world \<Rightarrow> system \<Rightarrow> lead \<Rightarrow> system \<times> bool" where
  "notify w st lead =
     (if slack_enabled w
      then (case send_slack_notification w st lead of
              (st', slack_success) \<Rightarrow> (st', True \<and> slack_success))
      else (st, True))"

subsection \<open>Content normalizer\<close>

text \<open>\<^verbatim>\<open>str.splitlines()\<close>: the first argument collects the current line, reversed.\<close>

definition is_linebreak :: "char \<Rightarrow> bool" where
  "is_linebreak c = (of_char c \<in> {10, 11, 12, 13, 28, 29, 30 :: nat})"

fun splitlines_from :: "string \<Rightarrow> string \<Rightarrow> string list" where
  "splitlines_from cur [] = (if cur = [] then [] else [rev cur])"
| "splitlines_from cur [c] = (if is_linebreak c then [rev cur] else [rev (c # cur)])"
| "splitlines_from cur (c # d # cs) =
     (if c = CHR 0x0D \<and> d = CHR 0x0A then rev cur # splitlines_from [] cs
      else if is_linebreak c then rev cur # splitlines_from [] (d # cs)
      else splitlines_from (c # cur) (d # cs))"

definition splitlines :: "string \<Rightarrow> string list" where
  "splitlines s = splitlines_from [] s"

text \<open>\<^verbatim>\<open>line.split("  ")\<close>: split at each pair of spaces, left to right.\<close>

fun split_two_spaces :: "string \<Rightarrow> string \<Rightarrow> string list" where
  "split_two_spaces cur [] = [rev cur]"
| "split_two_spaces cur [c] = [rev (c # cur)]"
| "split_two_spaces cur (c # d # cs) =
     (if c = CHR '' '' \<and> d = CHR '' '' then rev cur # split_two_spaces [] cs
      else split_two_spaces (c # cur) (d # cs))"

text \<open>
  \<^verbatim>\<open>re.sub(r'http[s]?://\S+', '', text)\<close>: a match is the scheme followed by the longest
  run of non-space characters, which must not be empty.
\<close>

definition after_scheme :: "string \<Rightarrow> string option" where
  "after_scheme s =
     (if take 8 s = ''https://'' then Some (drop 8 s)
      else if take 7 s = ''http://'' then Some (drop 7 s)
      else None)"

function remove_urls :: "string \<Rightarrow> string" where
  "remove_urls [] = []"
| "remove_urls (c # cs) =
     (case after_scheme (c # cs) of
        None \<Rightarrow> c # remove_urls cs
      | Some rest \<Rightarrow>
          if rest = [] \<or> is_space (hd rest) then c # remove_urls cs
          else remove_urls (dropWhile (\<lambda>x. \<not> is_space x) rest))"
  by pat_completeness auto
termination
proof (relation "measure length")
  show "wf (measure length)" by simp
next
  fix c :: char and cs :: string
  show "(cs, c # cs) \<in> measure length" by simp
next
  fix c :: char and cs x2 :: string
  show "(cs, c # cs) \<in> measure length" by simp
next
  fix c :: char and cs rest :: string
  assume a: "after_scheme (c # cs) = Some rest"
  have "length rest < length (c # cs)"
    using a by (auto simp: after_scheme_def split: if_splits)
  moreover have "length (dropWhile (\<lambda>x. \<not> is_space x) rest) \<le> length rest"
    by (rule length_dropWhile_le)
  ultimately show "(dropWhile (\<lambda>x. \<not> is_space x) rest, c # cs) \<in> measure length"
    by simp
qed

text \<open>\<^verbatim>\<open>re.sub(r'\s+', ' ', text)\<close>.\<close>

function collapse_spaces :: "string \<Rightarrow> string" where
  "collapse_spaces [] = []"
| "collapse_spaces (c # cs) =
     (if is_space c then CHR '' '' # collapse_spaces (dropWhile is_space cs)
      else c # collapse_spaces cs)"
  by pat_completeness auto
termination
  by (relation "measure length") (auto simp: length_dropWhile_le less_Suc_eq_le)

text \<open>
  \<^verbatim>\<open>CompanyScraper._clean_html_content\<close>. Parsing the markup, dropping the script and
  style elements and \<^verbatim>\<open>get_text(separator=' ')\<close> are the parser library's; the rest is
  the function's own clean-up.
\<close>

definition clean_html_content :: "world \<Rightarrow> string \<Rightarrow> string" where
  "clean_html_content w html_content =
     (case soup_get_text w html_content of
        Inl _ \<Rightarrow> html_content
      | Inr text \<Rightarrow>
          let lines = map strip (splitlines text);
              chunks = concat (map (\<lambda>line. map strip (split_two_spaces [] line)) lines);
              text1 = join '' '' (filter (\<lambda>chunk. chunk \<noteq> []) chunks);
              text2 = remove_urls text1
          in strip (collapse_spaces text2))"

text \<open>\<^verbatim>\<open>CompanyScraper._generate_clean_description\<close>.\<close>

definition generate_clean_description :: "world \<Rightarrow> string \<Rightarrow> string" where
  "generate_clean_description w content =
     (let cleaned_content = clean_html_content w content
      in case summary_completion w cleaned_content of
           Inl _ \<Rightarrow> content
         | Inr summary \<Rightarrow> strip summary)"

subsection \<open>Evaluators\<close>

text \<open>\<^verbatim>\<open>CompanyScraper._evaluate_article_relevance\<close> and \<^verbatim>\<open>_evaluate_csm_value\<close>.\<close>

definition evaluate_article_relevance :: "world \<Rightarrow> string \<Rightarrow> string \<Rightarrow> string \<Rightarrow> relevance" where
  "evaluate_article_relevance w c t content =
     (case relevance_completion w c t content of
        Inl _ \<Rightarrow> \<lparr> is_relevant = False, rel_score = 0, rel_explanation = ''Error in evaluation'' \<rparr>
      | Inr evaluation \<Rightarrow> evaluation)"

definition evaluate_csm_value :: "world \<Rightarrow> string \<Rightarrow> string \<Rightarrow> string \<Rightarrow> csm_value" where
  "evaluate_csm_value w c t content =
     (case value_completion w c t content of
        Inl _ \<Rightarrow> \<lparr> is_valuable = False, value_type = [''none''], csm_action_items = [],
                    csm_explanation = ''Error in evaluation'' \<rparr>
      | Inr evaluation \<Rightarrow> evaluation)"

subsection \<open>Ingestion\<close>

definition COMPANY_RELATIONSHIPS :: "(string \<times> string list) list" where
  "COMPANY_RELATIONSHIPS =
     [(''couchbase'',
       [''Coca Cola'', ''Delta Airlines'', ''The Home Depot'', ''IHG'', ''Black Knight'',
        ''Veem'', ''PWC'', ''Accesso'', ''Rollins'', ''NCR Voyix'', ''NCR Ateleos'',
        ''PGA Tour'', ''Hard Rock'', ''Equifax'', ''Chick-fil-A'']),
      (''subkit'',
       [''TRUFF'', ''310 Nutrition'', ''MUTHA'', ''HiBAR'', ''Viome'', ''BIOHM'',
        ''Fulton Fish Market'', ''EBOOST'', ''Obvi'', ''Kuli Kuli'', ''Tiege Hanley'',
        ''MUD/WTR'', ''GoPure'', ''Wilde Chips'']),
      (''legion'', [''Apple'', ''Microsoft'', ''Meta''])]"

definition get_company_category :: "string \<Rightarrow> string" where
  "get_company_category c =
     (case find (\<lambda>(cat, companies). c \<in> set companies) COMPANY_RELATIONSHIPS of
        Some (cat, _) \<Rightarrow> cat
      | None \<Rightarrow> ''unknown'')"

text \<open>
  One pass of the loop body of \<^verbatim>\<open>CompanyScraper._fetch_news\<close> on the \<open>n\<close>-th entry of the
  feed: \<open>None\<close> when the entry is skipped, by a gate or by the handler around the body.
\<close>

definition raw_description_of :: "world \<Rightarrow> feed_entry \<Rightarrow> string" where
  "raw_description_of w entry =
     (case entry_description entry of Some d \<Rightarrow> html_unescape w d | None \<Rightarrow> [])"

definition fetch_entry :: "world \<Rightarrow> string \<Rightarrow> nat \<Rightarrow> feed_entry \<Rightarrow> lead option" where
  "fetch_entry w c n entry =
     (case entry_title entry of
        None \<Rightarrow> None
      | Some t0 \<Rightarrow>
          let t = html_unescape w t0;
              raw = raw_description_of w entry;
              clean_description = generate_clean_description w raw;
              relevance = evaluate_article_relevance w c t clean_description
          in if \<not> is_relevant relevance \<or> rel_score relevance < 50 then None
             else
               let csm = evaluate_csm_value w c t clean_description
               in if \<not> is_valuable csm then None
                  else (case entry_link entry of
                          None \<Rightarrow> None
                        | Some link \<Rightarrow>
                            Some \<lparr> lead_id = Some (uuid4 w n), title = Some t, url = Some link,
                                   description = Some clean_description,
                                   raw_description = Some raw,
                                   source = Some ''Google News'',
                                   company = Some c,
                                   category = Some (get_company_category c),
                                   timestamp = Some (utcnow w),
                                   relevance_score = Some (rel_score relevance),
                                   relevance_explanation = Some (rel_explanation relevance),
                                   value_types = Some (value_type csm),
                                   action_items = Some (csm_action_items csm),
                                   csm_value_explanation = Some (csm_explanation csm),
                                   vector_embedding = None,
                                   created_at = None \<rparr>))"

text \<open>\<^verbatim>\<open>_fetch_news\<close> on the parsed feed: the first ten entries, in order.\<close>

definition fetch_news :: "world \<Rightarrow> string \<Rightarrow> feed_entry list \<Rightarrow> lead list" where
  "fetch_news w c entries =
     List.map_filter (\<lambda>(n, entry). fetch_entry w c n entry)
       (enumerate 0 (take 10 entries))"

subsection \<open>Commit\<close>

definition lead_text_of :: "string \<Rightarrow> string \<Rightarrow> string \<Rightarrow> string" where
  "lead_text_of c t d = c @ '' '' @ t @ '' '' @ d"

text \<open>
  \<^verbatim>\<open>CompanyScraper.process_and_store_lead\<close>. Every exception inside the body ends in the
  handler, which returns False with whatever was written so far; this includes the
  compensating \<^verbatim>\<open>delete_one\<close>.
\<close>

definition process_and_store_lead :: "world \<Rightarrow> system \<Rightarrow> lead \<Rightarrow> system \<times> bool" where
  "process_and_store_lead w st lead =
     (case getitem (url lead) of Inl _ \<Rightarrow> (st, False) | Inr u \<Rightarrow>
      if get_lead_by_url w st u \<noteq> None then (st, False)
      else
     (case getitem (company lead) of Inl _ \<Rightarrow> (st, False) | Inr c \<Rightarrow>
     (case getitem (title lead) of Inl _ \<Rightarrow> (st, False) | Inr t \<Rightarrow>
      let lead_text = lead_text_of c t (get_default (description lead) [])
      in (case generate_embedding w lead_text of Inl _ \<Rightarrow> (st, False) | Inr embedding \<Rightarrow>
          if check_duplicate w st lead_text SIMILARITY_THRESHOLD \<noteq> None then (st, False)
          else
         (case store_lead w st lead embedding of
            (st1, None) \<Rightarrow> (st1, False)
          | (st1, Some stored_lead) \<Rightarrow>
             (case getitem (lead_id lead) of Inl _ \<Rightarrow> (st1, False) | Inr i \<Rightarrow>
             (case insert_vector w st1 i embedding
                     \<lparr> m_title = t, m_url = u,
                       m_source = get_default (source lead) ''unknown'',
                       m_company = c,
                       m_relevance_score = None, m_value_types = None \<rparr> of
                (st2, False) \<Rightarrow>
                  (case delete_one w st2 i of
                     Inl _ \<Rightarrow> (st2, False)
                   | Inr st3 \<Rightarrow> (st3, False))
              | (st2, True) \<Rightarrow>
                  (case notify w st2 stored_lead of (st3, _) \<Rightarrow> (st3, True)))))))))"

text \<open>The \<^verbatim>\<open>lead.update({...})\<close> of \<^verbatim>\<open>process_lead\<close>.\<close>

definition lead_update :: "lead \<Rightarrow> relevance \<Rightarrow> csm_value \<Rightarrow> lead" where
  "lead_update lead relevance csm =
     lead\<lparr> relevance_score := Some (rel_score relevance),
           relevance_explanation := Some (rel_explanation relevance),
           value_types := Some (value_type csm),
           action_items := Some (csm_action_items csm),
           csm_value_explanation := Some (csm_explanation csm) \<rparr>"

text \<open>\<^verbatim>\<open>LeadDetectionSystem.process_lead\<close>.\<close>

definition process_lead :: "world \<Rightarrow> system \<Rightarrow> lead \<Rightarrow> system \<times> bool" where
  "process_lead w st lead0 =
     (let lead = (if lead_id lead0 = None then lead0\<lparr>lead_id := Some (uuid4 w 0)\<rparr> else lead0)
      in
     (case getitem (title lead) of Inl _ \<Rightarrow> (st, False) | Inr t \<Rightarrow>
      if check_duplicate w st t SIMILARITY_THRESHOLD \<noteq> None then (st, False)
      else
     (case getitem (company lead) of Inl _ \<Rightarrow> (st, False) | Inr c \<Rightarrow>
      let d = get_default (description lead) [];
          relevance = evaluate_article_relevance w c t d
      in if \<not> is_relevant relevance \<or> rel_score relevance < 70 then (st, False)
         else
           let csm = evaluate_csm_value w c t d
           in if \<not> is_valuable csm \<or> value_type csm = [''none''] then (st, False)
              else
                let lead' = lead_update lead relevance csm
                in (case generate_embedding w (lead_text_of c t d) of
                      Inl _ \<Rightarrow> (st, False)
                    | Inr embedding \<Rightarrow>
                       (case store_lead w st lead' embedding of
                          (st1, None) \<Rightarrow> (st1, False)
                        | (st1, Some stored_lead) \<Rightarrow>
                           (case getitem (lead_id lead') of Inl _ \<Rightarrow> (st1, False) | Inr i \<Rightarrow>
                           (case getitem (url lead') of Inl _ \<Rightarrow> (st1, False) | Inr u \<Rightarrow>
                           (case insert_vector w st1 i embedding
                                   \<lparr> m_title = t, m_url = u,
                                     m_source = get_default (source lead') ''unknown'',
                                     m_company = c,
                                     m_relevance_score = Some (rel_score relevance),
                                     m_value_types = Some (value_type csm) \<rparr> of
                              (st2, False) \<Rightarrow>
                                (case delete_one w st2 i of
                                   Inl _ \<Rightarrow> (st2, False)
                                 | Inr st3 \<Rightarrow> (st3, False))
                            | (st2, True) \<Rightarrow>
                                (case notify w st2 stored_lead of
                                   (st3, _) \<Rightarrow> (st3, True))))))))))"

subsection \<open>Dashboard duplicate filter\<close>

text \<open>
  The \<^verbatim>\<open>components\<close> dict of the dashboard: in limited mode it has neither \<^verbatim>\<open>"db"\<close>
  nor \<^verbatim>\<open>"vector_store"\<close>.
\<close>

record components =
  has_db :: bool
  has_vector_store :: bool

text \<open>The scan of the pending queue; a pending lead without \<^verbatim>\<open>url\<close> raises.\<close>

fun scan_pending :: "lead list \<Rightarrow> string \<Rightarrow> exn + bool" where
  "scan_pending [] u = Inr False"
| "scan_pending (p # ps) u =
     (case getitem (url p) of
        Inl e \<Rightarrow> Inl e
      | Inr pu \<Rightarrow> if pu = u then Inr True else scan_pending ps u)"

text \<open>
  \<^verbatim>\<open>check_duplicate_lead\<close> of \<^verbatim>\<open>app.py\<close>: the body of its \<^verbatim>\<open>try\<close>, then the
  handler. The handler's first statement is \<^verbatim>\<open>logger.error(...)\<close>, and \<^verbatim>\<open>app.py\<close> binds no
  \<^verbatim>\<open>logger\<close>: the handler raises NameError and its \<^verbatim>\<open>return False\<close> is never reached.
  \<open>pending\<close> is \<^verbatim>\<open>st.session_state.pending_leads\<close> when the session has it.
\<close>

definition check_duplicate_lead_body ::
    "world \<Rightarrow> system \<Rightarrow> components \<Rightarrow> lead list option \<Rightarrow> lead \<Rightarrow> exn + bool" where
  "check_duplicate_lead_body w st comps pending lead =
     (if \<not> has_db comps then Inl KeyError
      else
     (case getitem (url lead) of Inl e \<Rightarrow> Inl e | Inr u \<Rightarrow>
      if get_lead_by_url w st u \<noteq> None then Inr True
      else
     (case getitem (company lead) of Inl e \<Rightarrow> Inl e | Inr c \<Rightarrow>
     (case getitem (title lead) of Inl e \<Rightarrow> Inl e | Inr t \<Rightarrow>
      if \<not> has_vector_store comps then Inl KeyError
      else if check_duplicate w st (lead_text_of c t (get_default (description lead) []))
                SIMILARITY_THRESHOLD \<noteq> None then Inr True
      else (case pending of
              None \<Rightarrow> Inr False
            | Some ps \<Rightarrow> scan_pending ps u)))))"

definition check_duplicate_lead ::
    "world \<Rightarrow> system \<Rightarrow> components \<Rightarrow> lead list option \<Rightarrow> lead \<Rightarrow> exn + bool" where
  "check_duplicate_lead w st comps pending lead =
     (case check_duplicate_lead_body w st comps pending lead of
        Inl _ \<Rightarrow> Inl NameError
      | Inr duplicate \<Rightarrow> Inr duplicate)"

text \<open>
  \<^verbatim>\<open>filter_duplicates\<close>: the loop has no handler, so an exception of
  \<^verbatim>\<open>check_duplicate_lead\<close> leaves it.
\<close>

fun filter_duplicates ::
    "world \<Rightarrow> system \<Rightarrow> components \<Rightarrow> lead list option \<Rightarrow> lead list \<Rightarrow> exn + lead list" where
  "filter_duplicates w st comps pending [] = Inr []"
| "filter_duplicates w st comps pending (lead # ls) =
     (case check_duplicate_lead w st comps pending lead of
        Inl e \<Rightarrow> Inl e
      | Inr duplicate \<Rightarrow>
          (case filter_duplicates w st comps pending ls of
             Inl e \<Rightarrow> Inl e
           | Inr unique_leads \<Rightarrow>
               Inr (if duplicate then unique_leads else lead # unique_leads)))"


subsection \<open>Concrete worlds and leads\<close>

text \<open>
  A world in which every service answers: the embedding endpoint returns a vector of the
  configured dimension, no store call raises, both evaluators accept, the message
  generator returns no tool call, and the webhook answers 200.
\<close>

definition unit_vector :: "real list" where
  "unit_vector = replicate 1536 1"

definition quiet_world :: world where
  "quiet_world =
     \<lparr> embeddings_create = (\<lambda>_. Inr unit_vector),
       similarity = (\<lambda>_ _. 0),
       upsert_raises = (\<lambda>_. False),
       query_raises = (\<lambda>_. False),
       find_one_raises = (\<lambda>_. False),
       insert_one_raises = (\<lambda>_. False),
       read_back_raises = (\<lambda>_. False),
       delete_one_raises = (\<lambda>_. False),
       relevance_completion =
         (\<lambda>_ _ _. Inr \<lparr> is_relevant = True, rel_score = 85, rel_explanation = ''direct'' \<rparr>),
       value_completion =
         (\<lambda>_ _ _. Inr \<lparr> is_valuable = True, value_type = [''funding_round''],
                         csm_action_items = [''call''], csm_explanation = ''funding'' \<rparr>),
       summary_completion = (\<lambda>s. Inr s),
       message_completion = (\<lambda>_. NoToolCalls),
       requests_post = (\<lambda>_ _. Inr 200),
       soup_get_text = (\<lambda>s. Inr s),
       html_unescape = (\<lambda>s. s),
       uuid4 = (\<lambda>_. ''u0''),
       utcnow = ''2025-01-01T00:00:00'',
       SLACK_WEBHOOK_URL = Some ''https://hooks.example/T1'',
       ENABLE_SLACK_NOTIFICATIONS = True \<rparr>"

definition empty_system :: system where
  "empty_system = \<lparr> leads = [], pinecone_index = [], posts = [] \<rparr>"

definition sample_lead :: lead where
  "sample_lead =
     \<lparr> lead_id = Some ''L1'', title = Some ''Acme raises'', url = Some ''http://x/1'',
       description = Some ''Series B'', raw_description = None,
       source = Some ''Google News'', company = Some ''Acme'', category = None,
       timestamp = Some ''2025-01-01'', relevance_score = None,
       relevance_explanation = None, value_types = None, action_items = None,
       csm_value_explanation = None, vector_embedding = None, created_at = None \<rparr>"

definition sample_entry :: feed_entry where
  "sample_entry =
     \<lparr> entry_title = Some ''Acme raises'', entry_description = Some ''Series B'',
       entry_link = Some ''http://x/1'' \<rparr>"

definition full_components :: components where
  "full_components = \<lparr> has_db = True, has_vector_store = True \<rparr>"

definition short_world :: world where
  "short_world = quiet_world\<lparr>embeddings_create := (\<lambda>_. Inr [1, 2, 3])\<rparr>"

definition muted_world :: world where
  "muted_world = quiet_world\<lparr>SLACK_WEBHOOK_URL := None\<rparr>"

definition lukewarm_world :: world where
  "lukewarm_world =
     quiet_world\<lparr>relevance_completion :=
       (\<lambda>_ _ _. Inr \<lparr> is_relevant = True, rel_score = 60, rel_explanation = ''indirect'' \<rparr>)\<rparr>"

definition cold_world :: world where
  "cold_world =
     quiet_world\<lparr>relevance_completion :=
       (\<lambda>_ _ _. Inr \<lparr> is_relevant = True, rel_score = 49, rel_explanation = ''remote'' \<rparr>)\<rparr>"

definition worthless_world :: world where
  "worthless_world =
     quiet_world\<lparr>value_completion :=
       (\<lambda>_ _ _. Inr \<lparr> is_valuable = False, value_type = [''funding_round''],
                       csm_action_items = [], csm_explanation = ''nothing to do'' \<rparr>)\<rparr>"

definition index_down_world :: world where
  "index_down_world = quiet_world\<lparr>upsert_raises := (\<lambda>_. True)\<rparr>"

definition second_lead :: lead where
  "second_lead = sample_lead\<lparr>lead_id := Some ''L2'', title := Some ''Acme raises again''\<rparr>"

definition lookup_down_world :: world where
  "lookup_down_world =
     quiet_world\<lparr>similarity := (\<lambda>_ _. 1), find_one_raises := (\<lambda>_. True),
       query_raises := (\<lambda>_. True)\<rparr>"

definition stored_system :: system where
  "stored_system =
     \<lparr> leads = [sample_lead\<lparr>vector_embedding := Some unit_vector\<rparr>],
       pinecone_index =
         [(''L1'', unit_vector,
           \<lparr> m_title = ''Acme raises'', m_url = ''http://x/1'', m_source = ''Google News'',
             m_company = ''Acme'', m_relevance_score = None, m_value_types = None \<rparr>)],
       posts = [] \<rparr>"

definition partial_reply_world :: world where
  "partial_reply_world =
     quiet_world\<lparr>message_completion :=
       (\<lambda>_. Structure \<lparr> greeting = Some ''Hello team'', main_points = Some [''funding''],
                          action_suggestions = None, urgency_level = Some ''high'' \<rparr>)\<rparr>"

definition urlless_lead :: lead where
  "urlless_lead = sample_lead\<lparr>url := None\<rparr>"

definition refusing_world :: world where
  "refusing_world = partial_reply_world\<lparr>requests_post := (\<lambda>_ _. Inr 500)\<rparr>"

definition markup_world :: world where
  "markup_world =
     quiet_world\<lparr>summary_completion := (\<lambda>_. Inl OpenAIError),
       soup_get_text :=
         (\<lambda>s. if s = ''<p>Hello  world</p>'' then Inr ''Hello  world'' else Inr s)\<rparr>"




definition other_lead :: lead where
  "other_lead =
     sample_lead\<lparr>lead_id := Some ''L3'', title := Some ''Acme funding confirmed'',
       url := Some ''http://y/9''\<rparr>"





text \<open>The dashboard's components in limited mode, without database connection.\<close>

definition limited_components :: components where
  "limited_components = \<lparr> has_db = False, has_vector_store = False \<rparr>"

text \<open>
  A world in which the vector index is down and the delete that follows raises too, and
  a store that already holds a record with the id of \<open>sample_lead\<close> under another url.
\<close>

definition stuck_world :: world where
  "stuck_world = index_down_world\<lparr>delete_one_raises := (\<lambda>_. True)\<rparr>"

definition aged_system :: system where
  "aged_system =
     \<lparr> leads = [sample_lead\<lparr>title := Some ''Acme hires'', url := Some ''http://old/0'',
                   vector_embedding := Some unit_vector\<rparr>],
       pinecone_index = [], posts = [] \<rparr>"

section \<open>Properties\<close>

subsection \<open>Evaluation of the concrete worlds\<close>

lemma length_unit_vector: "length unit_vector = 1536"
  by (simp add: unit_vector_def)

lemma unit_vector_not_Nil: "unit_vector \<noteq> []"
  by (simp add: unit_vector_def)

lemmas string_defs = strip_def is_space_def lead_text_of_def getitem_def get_default_def

lemmas store_defs =
  store_lead_def insert_lead_def insert_one_def delete_one_def get_lead_by_url_def
  generate_embedding_def insert_vector_def upsert_def find_similar_def index_query_def
  check_duplicate_def VECTOR_DIMENSION_def SIMILARITY_THRESHOLD_def
  length_unit_vector unit_vector_not_Nil

lemmas notifier_defs =
  notify_def send_slack_notification_def generate_slack_message_def fallback_in_try_def
  generate_fallback_message_def slack_enabled_def has_required_fields_def

lemmas evaluator_defs = evaluate_article_relevance_def evaluate_csm_value_def

lemmas world_defs =
  quiet_world_def short_world_def muted_world_def lukewarm_world_def cold_world_def
  worthless_world_def empty_system_def sample_lead_def sample_entry_def
  full_components_def

subsection \<open>Embedding dimension\<close>

lemma generate_embedding_Inr:
  "generate_embedding w text = Inr v \<Longrightarrow>
     length v = VECTOR_DIMENSION \<and> embeddings_create w text = Inr v \<and> strip text \<noteq> []"
  by (auto simp: generate_embedding_def split: if_splits sum.splits)

lemma generate_embedding_mismatch:
  "embeddings_create w text = Inr v \<Longrightarrow> length v \<noteq> VECTOR_DIMENSION \<Longrightarrow>
     \<exists>e. generate_embedding w text = Inl e"
  by (simp add: generate_embedding_def)

lemma process_and_store_lead_no_embedding:
  "generate_embedding w (lead_text_of c t (get_default (description lead) [])) = Inl e \<Longrightarrow>
   company lead = Some c \<Longrightarrow> title lead = Some t \<Longrightarrow>
   process_and_store_lead w st lead = (st, False)"
  by (simp add: process_and_store_lead_def getitem_def Let_def split: option.splits)

lemma process_lead_no_embedding:
  "generate_embedding w (lead_text_of c t (get_default (description lead) [])) = Inl e \<Longrightarrow>
   company lead = Some c \<Longrightarrow> title lead = Some t \<Longrightarrow>
   process_lead w st lead = (st, False)"
  by (simp add: process_lead_def getitem_def Let_def split: option.splits)

text \<open>
  C8. \<^verbatim>\<open>generate_embedding\<close> returns a vector only when it has the configured dimension
  1536, and then it is the very vector the embedding endpoint produced, neither cut nor
  padded; for a vector of any other length it raises. A lead whose text gets such a
  vector is not persisted: both commit paths report failure and leave the stores as they
  were.
\<close>

theorem generate_embedding_dimension:
  "VECTOR_DIMENSION = 1536
   \<and> (generate_embedding w text = Inr v \<longrightarrow>
        length v = VECTOR_DIMENSION \<and> embeddings_create w text = Inr v)
   \<and> (embeddings_create w text = Inr v' \<and> length v' \<noteq> VECTOR_DIMENSION \<longrightarrow>
        (\<exists>e. generate_embedding w text = Inl e))
   \<and> (company lead = Some c \<and> title lead = Some t
        \<and> embeddings_create w (lead_text_of c t (get_default (description lead) [])) = Inr v'
        \<and> length v' \<noteq> VECTOR_DIMENSION \<longrightarrow>
        process_lead w st lead = (st, False)
        \<and> process_and_store_lead w st lead = (st, False))"
proof -
  have a: "generate_embedding w text = Inr v \<longrightarrow>
        length v = VECTOR_DIMENSION \<and> embeddings_create w text = Inr v"
    using generate_embedding_Inr by blast
  have b: "embeddings_create w text = Inr v' \<and> length v' \<noteq> VECTOR_DIMENSION \<longrightarrow>
        (\<exists>e. generate_embedding w text = Inl e)"
    using generate_embedding_mismatch by blast
  have c: "company lead = Some c \<and> title lead = Some t
        \<and> embeddings_create w (lead_text_of c t (get_default (description lead) [])) = Inr v'
        \<and> length v' \<noteq> VECTOR_DIMENSION \<longrightarrow>
        process_lead w st lead = (st, False)
        \<and> process_and_store_lead w st lead = (st, False)"
    using generate_embedding_mismatch process_lead_no_embedding
      process_and_store_lead_no_embedding by blast
  show ?thesis using a b c by (simp add: VECTOR_DIMENSION_def)
qed

theorem generate_embedding_dimension_witness:
  "generate_embedding quiet_world ''Acme raises'' = Inr unit_vector
   \<and> length unit_vector = VECTOR_DIMENSION
   \<and> embeddings_create quiet_world ''Acme raises'' = Inr unit_vector
   \<and> company sample_lead = Some ''Acme'' \<and> title sample_lead = Some ''Acme raises''
   \<and> embeddings_create short_world
        (lead_text_of ''Acme'' ''Acme raises'' (get_default (description sample_lead) []))
       = Inr [1, 2, 3]
   \<and> length [1, 2, 3 :: real] \<noteq> VECTOR_DIMENSION
   \<and> (\<exists>e. generate_embedding short_world
        (lead_text_of ''Acme'' ''Acme raises'' (get_default (description sample_lead) []))
       = Inl e)
   \<and> process_lead short_world empty_system sample_lead = (empty_system, False)
   \<and> process_and_store_lead short_world empty_system sample_lead = (empty_system, False)"
proof -
  have a: "generate_embedding quiet_world ''Acme raises'' = Inr unit_vector"
    by (simp add: string_defs store_defs world_defs)
  have b: "company sample_lead = Some ''Acme'' \<and> title sample_lead = Some ''Acme raises''
     \<and> embeddings_create short_world
        (lead_text_of ''Acme'' ''Acme raises'' (get_default (description sample_lead) []))
       = Inr [1, 2, 3]
     \<and> length [1, 2, 3 :: real] \<noteq> VECTOR_DIMENSION"
    by (simp add: string_defs world_defs VECTOR_DIMENSION_def)
  show ?thesis
    using a b
      generate_embedding_dimension [of quiet_world "''Acme raises''" unit_vector]
      generate_embedding_dimension [of short_world
        "lead_text_of ''Acme'' ''Acme raises'' (get_default (description sample_lead) [])"
        unit_vector "[1, 2, 3]" sample_lead "''Acme''" "''Acme raises''" empty_system]
    by blast
qed

subsection \<open>Notifications switched off\<close>

text \<open>
  C10. When Slack notifications are disabled, because \<^verbatim>\<open>ENABLE_SLACK_NOTIFICATIONS\<close> is
  false or \<^verbatim>\<open>SLACK_WEBHOOK_URL\<close> is unset, \<^verbatim>\<open>notify\<close> returns True for every lead and
  posts nothing to the webhook, while \<^verbatim>\<open>send_slack_notification\<close> called directly in the
  same state returns False, also without posting.
\<close>

theorem notify_disabled:
  "\<not> ENABLE_SLACK_NOTIFICATIONS w \<or> SLACK_WEBHOOK_URL w = None \<Longrightarrow>
     notify w st lead = (st, True) \<and> send_slack_notification w st lead = (st, False)"
  by (auto simp: notify_def send_slack_notification_def slack_enabled_def)

theorem notify_disabled_witness:
  "SLACK_WEBHOOK_URL muted_world = None
   \<and> notify muted_world empty_system sample_lead = (empty_system, True)
   \<and> send_slack_notification muted_world empty_system sample_lead = (empty_system, False)"
  using notify_disabled [of muted_world empty_system sample_lead]
  by (simp add: world_defs)

subsection \<open>Relevance and value gates\<close>

lemma fetch_news_single:
  "fetch_news w c [entry] = (case fetch_entry w c 0 entry of None \<Rightarrow> [] | Some l \<Rightarrow> [l])"
  by (simp add: fetch_news_def List.map_filter_def split: option.splits)

text \<open>
  C3. In \<^verbatim>\<open>process_lead\<close>, the final commit, a relevance evaluation with a score below 70
  ends the run before any write, whatever its \<^verbatim>\<open>is_relevant\<close> flag says: the result is
  False and the stores and the webhook are untouched. Ingestion (\<^verbatim>\<open>_fetch_news\<close>) uses the
  bar 50: an entry scored below 50 yields no lead, and an entry that is relevant with a
  score of at least 50, valuable and linked yields a lead carrying that score.
\<close>

theorem relevance_gate:
  "(company lead = Some c \<and> title lead = Some t
      \<and> rel_score (evaluate_article_relevance w c t (get_default (description lead) [])) < 70
      \<longrightarrow> process_lead w st lead = (st, False))
   \<and> (entry_title entry = Some t0
      \<and> rel_score (evaluate_article_relevance w c (html_unescape w t0)
            (generate_clean_description w (raw_description_of w entry))) < 50
      \<longrightarrow> fetch_entry w c n entry = None \<and> fetch_news w c [entry] = [])
   \<and> (entry_title entry = Some t0 \<and> entry_link entry = Some link
      \<and> is_relevant (evaluate_article_relevance w c (html_unescape w t0)
            (generate_clean_description w (raw_description_of w entry)))
      \<and> 50 \<le> rel_score (evaluate_article_relevance w c (html_unescape w t0)
            (generate_clean_description w (raw_description_of w entry)))
      \<and> is_valuable (evaluate_csm_value w c (html_unescape w t0)
            (generate_clean_description w (raw_description_of w entry)))
      \<longrightarrow> (\<exists>l. fetch_entry w c n entry = Some l
              \<and> relevance_score l = Some (rel_score (evaluate_article_relevance w c
                    (html_unescape w t0)
                    (generate_clean_description w (raw_description_of w entry))))))"
proof (intro conjI impI)
  assume "company lead = Some c \<and> title lead = Some t
      \<and> rel_score (evaluate_article_relevance w c t (get_default (description lead) [])) < 70"
  then show "process_lead w st lead = (st, False)"
    by (simp add: process_lead_def getitem_def Let_def split: option.splits)
next
  assume a: "entry_title entry = Some t0
      \<and> rel_score (evaluate_article_relevance w c (html_unescape w t0)
            (generate_clean_description w (raw_description_of w entry))) < 50"
  then have "\<And>k. fetch_entry w c k entry = None"
    by (simp add: fetch_entry_def Let_def)
  then show "fetch_entry w c n entry = None" "fetch_news w c [entry] = []"
    by (simp_all add: fetch_news_single)
next
  assume "entry_title entry = Some t0 \<and> entry_link entry = Some link
      \<and> is_relevant (evaluate_article_relevance w c (html_unescape w t0)
            (generate_clean_description w (raw_description_of w entry)))
      \<and> 50 \<le> rel_score (evaluate_article_relevance w c (html_unescape w t0)
            (generate_clean_description w (raw_description_of w entry)))
      \<and> is_valuable (evaluate_csm_value w c (html_unescape w t0)
            (generate_clean_description w (raw_description_of w entry)))"
  then show "\<exists>l. fetch_entry w c n entry = Some l
              \<and> relevance_score l = Some (rel_score (evaluate_article_relevance w c
                    (html_unescape w t0)
                    (generate_clean_description w (raw_description_of w entry))))"
    by (simp add: fetch_entry_def Let_def)
qed

theorem relevance_gate_witness:
  "company sample_lead = Some ''Acme'' \<and> title sample_lead = Some ''Acme raises''
   \<and> is_relevant (evaluate_article_relevance lukewarm_world ''Acme'' ''Acme raises''
        (get_default (description sample_lead) []))
   \<and> rel_score (evaluate_article_relevance lukewarm_world ''Acme'' ''Acme raises''
        (get_default (description sample_lead) [])) = 60
   \<and> process_lead lukewarm_world empty_system sample_lead = (empty_system, False)
   \<and> entry_title sample_entry = Some ''Acme raises''
   \<and> entry_link sample_entry = Some ''http://x/1''
   \<and> fetch_entry cold_world ''Acme'' 0 sample_entry = None
   \<and> fetch_news cold_world ''Acme'' [sample_entry] = []
   \<and> (\<exists>l. fetch_entry lukewarm_world ''Acme'' 0 sample_entry = Some l
          \<and> relevance_score l = Some 60)"
proof -
  have a: "company sample_lead = Some ''Acme'' \<and> title sample_lead = Some ''Acme raises''
     \<and> entry_title sample_entry = Some ''Acme raises''
     \<and> entry_link sample_entry = Some ''http://x/1''"
    by (simp add: world_defs)
  have b: "\<And>c t d. evaluate_article_relevance lukewarm_world c t d
      = \<lparr> is_relevant = True, rel_score = 60, rel_explanation = ''indirect'' \<rparr>"
    by (simp add: evaluator_defs world_defs)
  have c: "\<And>c t d. rel_score (evaluate_article_relevance cold_world c t d) = 49"
    by (simp add: evaluator_defs world_defs)
  have d: "\<And>c t d. is_valuable (evaluate_csm_value lukewarm_world c t d)"
    by (simp add: evaluator_defs world_defs)
  have e: "html_unescape cold_world ''Acme raises'' = ''Acme raises''
     \<and> html_unescape lukewarm_world ''Acme raises'' = ''Acme raises''"
    by (simp add: world_defs)
  show ?thesis
    using a e
      relevance_gate [of sample_lead "''Acme''" "''Acme raises''" lukewarm_world
        empty_system sample_entry "''Acme raises''" 0 "''http://x/1''"]
      relevance_gate [of sample_lead "''Acme''" "''Acme raises''" cold_world
        empty_system sample_entry "''Acme raises''" 0 "''http://x/1''"]
    by (simp add: b c d)
qed

text \<open>
  C4. A value evaluation with \<^verbatim>\<open>is_valuable\<close> false discards the candidate at the value
  gate, whatever \<^verbatim>\<open>value_type\<close> lists: \<^verbatim>\<open>process_lead\<close> returns False with the stores and
  the webhook untouched, and \<^verbatim>\<open>_fetch_news\<close> yields no lead for the entry.
\<close>

theorem value_gate:
  "(company lead = Some c \<and> title lead = Some t
      \<and> \<not> is_valuable (evaluate_csm_value w c t (get_default (description lead) []))
      \<longrightarrow> process_lead w st lead = (st, False))
   \<and> (entry_title entry = Some t0
      \<and> \<not> is_valuable (evaluate_csm_value w c (html_unescape w t0)
            (generate_clean_description w (raw_description_of w entry)))
      \<longrightarrow> fetch_entry w c n entry = None \<and> fetch_news w c [entry] = [])"
proof (intro conjI impI)
  assume "company lead = Some c \<and> title lead = Some t
      \<and> \<not> is_valuable (evaluate_csm_value w c t (get_default (description lead) []))"
  then show "process_lead w st lead = (st, False)"
    by (simp add: process_lead_def getitem_def Let_def split: option.splits)
next
  assume a: "entry_title entry = Some t0
      \<and> \<not> is_valuable (evaluate_csm_value w c (html_unescape w t0)
            (generate_clean_description w (raw_description_of w entry)))"
  then have "\<And>k. fetch_entry w c k entry = None"
    by (simp add: fetch_entry_def Let_def)
  then show "fetch_entry w c n entry = None" "fetch_news w c [entry] = []"
    by (simp_all add: fetch_news_single)
qed

theorem value_gate_witness:
  "company sample_lead = Some ''Acme'' \<and> title sample_lead = Some ''Acme raises''
   \<and> \<not> is_valuable (evaluate_csm_value worthless_world ''Acme'' ''Acme raises''
        (get_default (description sample_lead) []))
   \<and> value_type (evaluate_csm_value worthless_world ''Acme'' ''Acme raises''
        (get_default (description sample_lead) [])) = [''funding_round'']
   \<and> process_lead worthless_world empty_system sample_lead = (empty_system, False)
   \<and> entry_title sample_entry = Some ''Acme raises''
   \<and> fetch_entry worthless_world ''Acme'' 0 sample_entry = None
   \<and> fetch_news worthless_world ''Acme'' [sample_entry] = []"
proof -
  have a: "company sample_lead = Some ''Acme'' \<and> title sample_lead = Some ''Acme raises''
     \<and> entry_title sample_entry = Some ''Acme raises''"
    by (simp add: world_defs)
  have b: "\<And>c t d. evaluate_csm_value worthless_world c t d
      = \<lparr> is_valuable = False, value_type = [''funding_round''],
          csm_action_items = [], csm_explanation = ''nothing to do'' \<rparr>"
    by (simp add: evaluator_defs world_defs)
  show ?thesis
    using a
      value_gate [of sample_lead "''Acme''" "''Acme raises''" worthless_world
        empty_system sample_entry "''Acme raises''" 0]
    by (simp add: b)
qed

subsection \<open>Notification fallback\<close>

lemma fallback_in_try_eq: "fallback_in_try lead = generate_fallback_message lead"
  by (simp add: fallback_in_try_def split: sum.splits)

lemma generate_slack_message_malformed:
  "\<forall>ms. message_completion w lead = Structure ms \<longrightarrow> \<not> has_required_fields ms \<Longrightarrow>
     generate_slack_message w lead = generate_fallback_message lead"
  by (simp add: generate_slack_message_def fallback_in_try_eq split: completion.splits)

lemma sublist_in_middle: "sublist x (a @ x @ b)"
  by (rule sublist_appendI)

lemma fallback_message_text:
  assumes "company lead = Some c" "title lead = Some t" "url lead = Some u"
  shows "\<exists>msg. generate_fallback_message lead = Inr msg
           \<and> sublist c msg \<and> sublist t msg \<and> sublist u msg"
proof -
  let ?a = "magnifier @ '' *New Lead Alert for ''"
  let ?b = "''*'' @ [CHR 0x0A] @ ''<''"
  let ?d = "''>'' @ [CHR 0x0A, CHR 0x0A] @ ''Check the article for potential opportunities.''"
  let ?msg = "?a @ c @ ?b @ u @ ''|'' @ t @ ?d"
  have m: "generate_fallback_message lead = Inr ?msg"
    using assms by (simp add: generate_fallback_message_def getitem_def)
  have "sublist c (?a @ c @ (?b @ u @ ''|'' @ t @ ?d))" by (rule sublist_in_middle)
  moreover have "sublist u ((?a @ c @ ?b) @ u @ (''|'' @ t @ ?d))" by (rule sublist_in_middle)
  moreover have "sublist t ((?a @ c @ ?b @ u @ ''|'') @ t @ ?d)" by (rule sublist_in_middle)
  ultimately have "sublist c ?msg \<and> sublist t ?msg \<and> sublist u ?msg" by simp
  then show ?thesis using m by blast
qed

text \<open>
  C9. Slack notifications being enabled and the lead carrying company, title and url:
  when the message generation comes back malformed (the call raises, there is no tool
  call, no arguments, no JSON, or a structure lacking one of the four required fields),
  \<^verbatim>\<open>notify\<close> posts the fallback text, which is built from the lead alone and contains
  its company, title and url verbatim, and returns whether the webhook answered 200.
\<close>

theorem notification_fallback:
  assumes "ENABLE_SLACK_NOTIFICATIONS w" and "SLACK_WEBHOOK_URL w = Some hook"
    and "company lead = Some c" and "title lead = Some t" and "url lead = Some u"
    and "\<forall>ms. message_completion w lead = Structure ms \<longrightarrow> \<not> has_required_fields ms"
  shows "\<exists>msg. generate_fallback_message lead = Inr msg
           \<and> notify w st lead
               = (st\<lparr>posts := posts st @ [msg]\<rparr>, requests_post w hook msg = Inr 200)
           \<and> sublist c msg \<and> sublist t msg \<and> sublist u msg"
proof -
  obtain msg where msg: "generate_fallback_message lead = Inr msg"
      "sublist c msg" "sublist t msg" "sublist u msg"
    using fallback_message_text [OF assms(3,4,5)] by blast
  have g: "generate_slack_message w lead = Inr msg"
    using generate_slack_message_malformed [OF assms(6)] msg(1) by simp
  have "notify w st lead
      = (st\<lparr>posts := posts st @ [msg]\<rparr>, requests_post w hook msg = Inr 200)"
    using assms(1,2,3,4) g
    by (auto simp: notify_def send_slack_notification_def slack_enabled_def Let_def
          split: sum.splits)
  then show ?thesis using msg by blast
qed

theorem notification_fallback_witness:
  "ENABLE_SLACK_NOTIFICATIONS quiet_world
   \<and> SLACK_WEBHOOK_URL quiet_world = Some ''https://hooks.example/T1''
   \<and> company sample_lead = Some ''Acme'' \<and> title sample_lead = Some ''Acme raises''
   \<and> url sample_lead = Some ''http://x/1''
   \<and> message_completion quiet_world sample_lead = NoToolCalls
   \<and> (\<exists>msg. generate_fallback_message sample_lead = Inr msg
         \<and> notify quiet_world empty_system sample_lead
             = (empty_system\<lparr>posts := [msg]\<rparr>, True)
         \<and> notify refusing_world empty_system sample_lead
             = (empty_system\<lparr>posts := [msg]\<rparr>, False)
         \<and> sublist ''Acme'' msg \<and> sublist ''Acme raises'' msg \<and> sublist ''http://x/1'' msg)"
proof -
  have a: "ENABLE_SLACK_NOTIFICATIONS quiet_world
     \<and> SLACK_WEBHOOK_URL quiet_world = Some ''https://hooks.example/T1''
     \<and> ENABLE_SLACK_NOTIFICATIONS refusing_world
     \<and> SLACK_WEBHOOK_URL refusing_world = Some ''https://hooks.example/T1''
     \<and> company sample_lead = Some ''Acme'' \<and> title sample_lead = Some ''Acme raises''
     \<and> url sample_lead = Some ''http://x/1''
     \<and> message_completion quiet_world sample_lead = NoToolCalls"
    by (simp add: world_defs refusing_world_def partial_reply_world_def)
  have b: "\<forall>ms. message_completion quiet_world sample_lead = Structure ms
      \<longrightarrow> \<not> has_required_fields ms"
    by (simp add: world_defs)
  have c: "\<forall>ms. message_completion refusing_world sample_lead = Structure ms
      \<longrightarrow> \<not> has_required_fields ms"
    by (simp add: world_defs refusing_world_def partial_reply_world_def
          has_required_fields_def)
  have d: "\<And>m. (requests_post quiet_world ''https://hooks.example/T1'' m = Inr 200) = True"
    "\<And>m. (requests_post refusing_world ''https://hooks.example/T1'' m = Inr 200) = False"
    by (simp_all add: world_defs refusing_world_def partial_reply_world_def)
  have e: "posts empty_system = []" by (simp add: world_defs)
  from a b c
    notification_fallback [of quiet_world "''https://hooks.example/T1''" sample_lead
      "''Acme''" "''Acme raises''" "''http://x/1''" empty_system]
    notification_fallback [of refusing_world "''https://hooks.example/T1''" sample_lead
      "''Acme''" "''Acme raises''" "''http://x/1''" empty_system]
  obtain m1 m2 where
    m1: "generate_fallback_message sample_lead = Inr m1"
      "notify quiet_world empty_system sample_lead = (empty_system\<lparr>posts := [m1]\<rparr>, True)"
      "sublist ''Acme'' m1" "sublist ''Acme raises'' m1" "sublist ''http://x/1'' m1"
    and m2: "generate_fallback_message sample_lead = Inr m2"
      "notify refusing_world empty_system sample_lead = (empty_system\<lparr>posts := [m2]\<rparr>, False)"
    unfolding d e by auto
  have "m2 = m1" using m1(1) m2(1) by simp
  then show ?thesis using a m1 m2 by blast
qed

subsection \<open>Content normalizer on generation failure\<close>

lemma generate_clean_description_failure:
  "summary_completion w (clean_html_content w content) = Inl e \<Longrightarrow>
     generate_clean_description w content = content"
  by (simp add: generate_clean_description_def)

text \<open>
  C6. When the summary generation fails, \<^verbatim>\<open>_generate_clean_description\<close> does not raise,
  but what it returns is the content it was given, markup, double spaces and all, not
  the cleaned text it had computed: for \<^verbatim>\<open><p>Hello  world</p>\<close> the cleaned text is
  \<^verbatim>\<open>Hello world\<close>, and the function returns \<^verbatim>\<open><p>Hello  world</p>\<close>.
\<close>

theorem clean_description_returns_raw:
  "summary_completion markup_world (clean_html_content markup_world ''<p>Hello  world</p>'')
     = Inl OpenAIError
   \<and> clean_html_content markup_world ''<p>Hello  world</p>'' = ''Hello world''
   \<and> generate_clean_description markup_world ''<p>Hello  world</p>'' = ''<p>Hello  world</p>''"
proof -
  have a: "clean_html_content markup_world ''<p>Hello  world</p>'' = ''Hello world''"
    by (simp add: clean_html_content_def markup_world_def quiet_world_def splitlines_def
          is_linebreak_def strip_def is_space_def after_scheme_def Let_def)
  have b: "\<And>s. summary_completion markup_world s = Inl OpenAIError"
    by (simp add: markup_world_def quiet_world_def)
  show ?thesis
    using a b generate_clean_description_failure [of markup_world "''<p>Hello  world</p>''"]
    by simp
qed

subsection \<open>Document store steps\<close>

lemma remove_first_append_fresh:
  "\<forall>x \<in> set xs. \<not> P x \<Longrightarrow> P y \<Longrightarrow> remove_first P (xs @ [y]) = xs"
  by (induction xs) auto

lemma insert_vector_fails:
  "i = [] \<or> upsert_raises w i \<Longrightarrow> insert_vector w st i v md = (st, False)"
  by (auto simp: insert_vector_def)

lemma insert_vector_False:
  "insert_vector w st i v md = (st', False) \<Longrightarrow> st' = st"
  by (auto simp: insert_vector_def split: if_splits)

lemma insert_vector_True:
  "insert_vector w st i v md = (st', True) \<Longrightarrow> leads st' = leads st \<and> posts st' = posts st"
  by (auto simp: insert_vector_def split: if_splits)


lemma lead_update_fields [simp]:
  "lead_id (lead_update l r c) = lead_id l" "url (lead_update l r c) = url l"
  "title (lead_update l r c) = title l" "company (lead_update l r c) = company l"
  "description (lead_update l r c) = description l" "source (lead_update l r c) = source l"
  by (simp_all add: lead_update_def)

lemma store_lead_cases:
  assumes "store_lead w st lead e = (st1, r)"
  shows "(r = None \<and> st1 = st)
       \<or> (\<exists>data. (r = Some data \<and> \<not> read_back_raises w data
                    \<or> r = None \<and> read_back_raises w data)
            \<and> st1 = st\<lparr>leads := leads st @ [data]\<rparr>
            \<and> lead_id data = lead_id lead \<and> url data = url lead
            \<and> title data = title lead \<and> company data = company lead
            \<and> lead_id lead \<noteq> None \<and> url lead \<noteq> None
            \<and> title lead \<noteq> None \<and> company lead \<noteq> None
            \<and> url data \<notin> set (map url (leads st)))"
  using assms
  by (auto simp: store_lead_def insert_lead_def insert_one_def getitem_def Let_def
           split: option.splits if_splits)

lemma store_lead_Some:
  "store_lead w st l e = (st1, Some d) \<Longrightarrow>
     st1 = st\<lparr>leads := leads st @ [d]\<rparr> \<and> lead_id d = lead_id l \<and> url d = url l
     \<and> title d = title l \<and> company d = company l
     \<and> lead_id l \<noteq> None \<and> url l \<noteq> None \<and> url d \<notin> set (map url (leads st))"
  using store_lead_cases [of w st l e st1 "Some d"] by force

subsection \<open>Store invariants\<close>

lemma set_remove_first: "set (remove_first P xs) \<subseteq> set xs"
  by (induction xs) auto

lemma distinct_map_remove_first:
  "distinct (map f xs) \<Longrightarrow> distinct (map f (remove_first P xs))"
proof (induction xs)
  case Nil
  then show ?case by simp
next
  case (Cons x xs)
  then show ?case using set_remove_first [of P xs] by auto
qed

lemma notify_keeps_stores:
  "notify w st l = (st', b) \<Longrightarrow> leads st' = leads st \<and> pinecone_index st' = pinecone_index st"
  by (auto simp: notify_def send_slack_notification_def Let_def
           split: if_splits sum.splits option.splits prod.splits)

lemma store_lead_distinct:
  "store_lead w st l e = (st1, r) \<Longrightarrow> distinct (map url (leads st)) \<Longrightarrow>
     distinct (map url (leads st1))"
  using store_lead_cases [of w st l e st1 r] by auto

lemma leads_notify [simp]: "leads (fst (notify w st l)) = leads st"
  using notify_keeps_stores [of w st l] by (cases "notify w st l") simp

lemma leads_insert_vector [simp]: "leads (fst (insert_vector w st i v md)) = leads st"
  by (simp add: insert_vector_def)

lemma leads_store_lead_distinct:
  "distinct (map url (leads st)) \<Longrightarrow> distinct (map url (leads (fst (store_lead w st l e))))"
  using store_lead_distinct [of w st l e] by (cases "store_lead w st l e") simp


lemma process_and_store_lead_distinct:
  "distinct (map url (leads st)) \<Longrightarrow>
     distinct (map url (leads (fst (process_and_store_lead w st lead))))"
  by (simp add: process_and_store_lead_def getitem_def Let_def split_beta
        leads_store_lead_distinct delete_one_def distinct_map_remove_first
      split: option.splits sum.splits bool.splits)

lemma process_lead_distinct:
  "distinct (map url (leads st)) \<Longrightarrow>
     distinct (map url (leads (fst (process_lead w st lead))))"
  by (simp add: process_lead_def getitem_def Let_def split_beta
        leads_store_lead_distinct delete_one_def distinct_map_remove_first
      split: option.splits sum.splits bool.splits)

lemma store_lead_known_url:
  "url l \<in> set (map url (leads st)) \<Longrightarrow> store_lead w st l e = (st, None)"
  by (auto simp: store_lead_def insert_lead_def insert_one_def getitem_def Let_def
           split: option.splits)

lemma process_and_store_lead_known_url:
  "url lead \<in> set (map url (leads st)) \<Longrightarrow> process_and_store_lead w st lead = (st, False)"
  by (auto simp: process_and_store_lead_def getitem_def Let_def store_lead_known_url
           split: option.splits sum.splits)

lemma process_lead_known_url:
  "url lead \<in> set (map url (leads st)) \<Longrightarrow> process_lead w st lead = (st, False)"
  by (auto simp: process_lead_def getitem_def Let_def store_lead_known_url
           split: option.splits sum.splits)

lemma process_and_store_lead_True:
  "process_and_store_lead w st lead = (st', True) \<Longrightarrow>
     \<exists>d. leads st' = leads st @ [d] \<and> url d = url lead
        \<and> url d \<notin> set (map url (leads st))"
  by (auto simp: process_and_store_lead_def getitem_def Let_def
      dest!: store_lead_Some insert_vector_True notify_keeps_stores
      split: option.splits sum.splits prod.splits bool.splits if_splits)


subsection \<open>One record per url\<close>

text \<open>
  C5. The document store never holds two records with one url: both commit functions
  keep the urls of the stored records distinct. After a lead has been committed, a second
  submission with the same url is rejected by either commit function, whatever the
  services answer then, and leaves the stores as they were, with exactly one record of
  that url; when the lookup by url does not raise, it finds that record.
\<close>

theorem url_stored_once:
  "(distinct (map url (leads st)) \<longrightarrow>
      distinct (map url (leads (fst (process_and_store_lead w st lead))))
      \<and> distinct (map url (leads (fst (process_lead w st lead)))))
   \<and> (process_and_store_lead w st lead = (st1, True) \<and> url lead' = url lead \<longrightarrow>
      process_and_store_lead w' st1 lead' = (st1, False)
      \<and> process_lead w' st1 lead' = (st1, False)
      \<and> length (filter (\<lambda>d. url d = url lead) (leads st1)) = 1)
   \<and> (process_and_store_lead w st lead = (st1, True) \<and> url lead = Some u
        \<and> \<not> find_one_raises w' u \<longrightarrow>
      get_lead_by_url w' st1 u \<noteq> None)"
proof (intro conjI impI)
  assume "distinct (map url (leads st))"
  then show "distinct (map url (leads (fst (process_and_store_lead w st lead))))"
    and "distinct (map url (leads (fst (process_lead w st lead))))"
    by (rule process_and_store_lead_distinct, rule process_lead_distinct)
next
  assume a: "process_and_store_lead w st lead = (st1, True) \<and> url lead' = url lead"
  then obtain d where d: "leads st1 = leads st @ [d]" "url d = url lead"
      "url d \<notin> set (map url (leads st))"
    using process_and_store_lead_True by blast
  have known: "url lead' \<in> set (map url (leads st1))" using a d by simp
  show "process_and_store_lead w' st1 lead' = (st1, False)"
    using known by (rule process_and_store_lead_known_url)
  show "process_lead w' st1 lead' = (st1, False)"
    using known by (rule process_lead_known_url)
  have "\<forall>x \<in> set (leads st). url x \<noteq> url lead"
    using d by (metis image_eqI set_map)
  then have "filter (\<lambda>x. url x = url lead) (leads st) = []"
    by (simp add: filter_empty_conv)
  then show "length (filter (\<lambda>d. url d = url lead) (leads st1)) = 1"
    using d by simp
next
  assume a: "process_and_store_lead w st lead = (st1, True) \<and> url lead = Some u
        \<and> \<not> find_one_raises w' u"
  then obtain d where d: "leads st1 = leads st @ [d]" "url d = url lead"
    using process_and_store_lead_True by blast
  then have "\<exists>x \<in> set (leads st1). url x = Some u" using a by auto
  then have "find (\<lambda>d. url d = Some u) (leads st1) \<noteq> None"
    by (auto simp: find_None_iff)
  then show "get_lead_by_url w' st1 u \<noteq> None"
    using a by (simp add: get_lead_by_url_def)
qed

lemma sample_commit:
  "snd (process_and_store_lead quiet_world empty_system sample_lead)"
  by (simp add: process_and_store_lead_def string_defs store_defs notifier_defs world_defs
        Let_def)

theorem url_stored_once_witness:
  "distinct (map url (leads empty_system))
   \<and> snd (process_and_store_lead quiet_world empty_system sample_lead)
   \<and> url second_lead = url sample_lead
   \<and> url sample_lead = Some ''http://x/1''
   \<and> find_one_raises lookup_down_world ''http://x/1''
   \<and> process_and_store_lead lookup_down_world
        (fst (process_and_store_lead quiet_world empty_system sample_lead)) second_lead
      = (fst (process_and_store_lead quiet_world empty_system sample_lead), False)
   \<and> length (filter (\<lambda>d. url d = url sample_lead)
        (leads (fst (process_and_store_lead quiet_world empty_system sample_lead)))) = 1
   \<and> get_lead_by_url quiet_world
        (fst (process_and_store_lead quiet_world empty_system sample_lead)) ''http://x/1''
      \<noteq> None"
proof -
  have a: "process_and_store_lead quiet_world empty_system sample_lead
      = (fst (process_and_store_lead quiet_world empty_system sample_lead), True)"
    using sample_commit by (simp add: prod_eq_iff)
  have b: "url second_lead = url sample_lead \<and> url sample_lead = Some ''http://x/1''
      \<and> find_one_raises lookup_down_world ''http://x/1''
      \<and> \<not> find_one_raises quiet_world ''http://x/1''
      \<and> distinct (map url (leads empty_system))"
    by (simp add: world_defs second_lead_def lookup_down_world_def)
  show ?thesis
    using a b sample_commit
      url_stored_once [of empty_system quiet_world sample_lead
        "fst (process_and_store_lead quiet_world empty_system sample_lead)" second_lead
        lookup_down_world "''http://x/1''"]
      url_stored_once [of empty_system quiet_world sample_lead
        "fst (process_and_store_lead quiet_world empty_system sample_lead)" second_lead
        quiet_world "''http://x/1''"]
    by blast
qed

subsection \<open>Errors inside the duplicate checks\<close>

lemma get_lead_by_url_raises:
  "find_one_raises w u \<Longrightarrow> get_lead_by_url w st u = None"
  by (simp add: get_lead_by_url_def)

lemma check_duplicate_no_embedding:
  "generate_embedding w text = Inl e \<Longrightarrow> check_duplicate w st text thr = None"
  by (simp add: check_duplicate_def)

lemma check_duplicate_query_raises:
  "generate_embedding w text = Inr v \<Longrightarrow> query_raises w v \<Longrightarrow>
     check_duplicate w st text thr = None"
  by (simp add: check_duplicate_def find_similar_def)

lemma check_duplicate_lead_raises:
  "check_duplicate_lead_body w st comps pending lead = Inl e \<Longrightarrow>
     check_duplicate_lead w st comps pending lead = Inl NameError"
  by (simp add: check_duplicate_lead_def)

lemma filter_duplicates_raises:
  "lead \<in> set ls \<Longrightarrow> check_duplicate_lead w st comps pending lead = Inl NameError \<Longrightarrow>
     filter_duplicates w st comps pending ls = Inl NameError"
proof (induction ls)
  case Nil
  then show ?case by simp
next
  case (Cons a ls)
  show ?case
  proof (cases "check_duplicate_lead w st comps pending a")
    case (Inl e)
    then have "e = NameError"
      by (auto simp: check_duplicate_lead_def split: sum.splits)
    then show ?thesis using Inl by simp
  next
    case (Inr duplicate)
    then have "lead \<in> set ls" using Cons.prems by auto
    then have "filter_duplicates w st comps pending ls = Inl NameError"
      using Cons.IH Cons.prems(2) by simp
    then show ?thesis using Inr by simp
  qed
qed

text \<open>
  C7. The two store checks treat an error as no duplicate: when the lookup by url raises,
  \<^verbatim>\<open>get_lead_by_url\<close> returns None, and when the embedding cannot be generated or the
  index query raises, \<^verbatim>\<open>check_duplicate\<close> returns None. \<^verbatim>\<open>check_duplicate_lead\<close> does not:
  when its body raises (a missing component, a missing key, a pending lead without url),
  the handler raises NameError instead of returning False, and \<^verbatim>\<open>filter_duplicates\<close>
  ends with that exception for every list that holds the lead, so no lead of the list
  proceeds. When both store checks raise inside \<^verbatim>\<open>check_duplicate_lead\<close>, the decision is
  left to the scan of the pending queue, and an error of the scan ends in NameError too.
\<close>

theorem duplicate_check_handler_raises:
  "(find_one_raises w u \<longrightarrow> get_lead_by_url w st u = None)
   \<and> (generate_embedding w text = Inl e \<longrightarrow> check_duplicate w st text thr = None)
   \<and> (generate_embedding w text = Inr v \<and> query_raises w v \<longrightarrow>
        check_duplicate w st text thr = None)
   \<and> (check_duplicate_lead_body w st comps pending lead = Inl e \<longrightarrow>
        check_duplicate_lead w st comps pending lead = Inl NameError
        \<and> (\<forall>ls. lead \<in> set ls \<longrightarrow>
              filter_duplicates w st comps pending ls = Inl NameError))
   \<and> (has_db comps \<and> has_vector_store comps
        \<and> url lead = Some u \<and> company lead = Some c \<and> title lead = Some t
        \<and> find_one_raises w u
        \<and> generate_embedding w (lead_text_of c t (get_default (description lead) [])) = Inl e
        \<longrightarrow>
        check_duplicate_lead w st comps pending lead
          = (case pending of
               None \<Rightarrow> Inr False
             | Some ps \<Rightarrow>
                 (case scan_pending ps u of Inl _ \<Rightarrow> Inl NameError | Inr found \<Rightarrow> Inr found)))"
proof (intro conjI impI allI)
  assume "find_one_raises w u"
  then show "get_lead_by_url w st u = None" by (rule get_lead_by_url_raises)
next
  assume "generate_embedding w text = Inl e"
  then show "check_duplicate w st text thr = None" by (rule check_duplicate_no_embedding)
next
  assume "generate_embedding w text = Inr v \<and> query_raises w v"
  then show "check_duplicate w st text thr = None"
    using check_duplicate_query_raises by blast
next
  assume "check_duplicate_lead_body w st comps pending lead = Inl e"
  then show "check_duplicate_lead w st comps pending lead = Inl NameError"
    by (rule check_duplicate_lead_raises)
next
  fix ls
  assume "check_duplicate_lead_body w st comps pending lead = Inl e" and "lead \<in> set ls"
  then show "filter_duplicates w st comps pending ls = Inl NameError"
    using check_duplicate_lead_raises filter_duplicates_raises by blast
next
  assume a: "has_db comps \<and> has_vector_store comps
        \<and> url lead = Some u \<and> company lead = Some c \<and> title lead = Some t
        \<and> find_one_raises w u
        \<and> generate_embedding w (lead_text_of c t (get_default (description lead) [])) = Inl e"
  then show "check_duplicate_lead w st comps pending lead
          = (case pending of
               None \<Rightarrow> Inr False
             | Some ps \<Rightarrow>
                 (case scan_pending ps u of Inl _ \<Rightarrow> Inl NameError | Inr found \<Rightarrow> Inr found))"
    by (simp add: check_duplicate_lead_def check_duplicate_lead_body_def getitem_def
          get_lead_by_url_raises check_duplicate_no_embedding
        split: option.splits sum.splits)
qed

theorem duplicate_check_handler_raises_witness:
  "find_one_raises lookup_down_world ''http://x/1''
   \<and> url (hd (leads stored_system)) = Some ''http://x/1''
   \<and> get_lead_by_url lookup_down_world stored_system ''http://x/1'' = None
   \<and> generate_embedding lookup_down_world ''Acme Acme raises Series B'' = Inr unit_vector
   \<and> query_raises lookup_down_world unit_vector
   \<and> check_duplicate lookup_down_world stored_system ''Acme Acme raises Series B''
        SIMILARITY_THRESHOLD = None
   \<and> generate_embedding short_world ''Acme Acme raises Series B'' = Inl ValueError
   \<and> check_duplicate short_world stored_system ''Acme Acme raises Series B''
        SIMILARITY_THRESHOLD = None
   \<and> check_duplicate_lead_body quiet_world empty_system full_components
        (Some [urlless_lead]) sample_lead = Inl KeyError
   \<and> check_duplicate_lead quiet_world empty_system full_components
        (Some [urlless_lead]) sample_lead = Inl NameError
   \<and> filter_duplicates quiet_world empty_system full_components
        (Some [urlless_lead]) [sample_lead] = Inl NameError
   \<and> filter_duplicates quiet_world empty_system full_components
        (Some [urlless_lead]) [other_lead, sample_lead] = Inl NameError
   \<and> check_duplicate_lead_body quiet_world empty_system limited_components None
        sample_lead = Inl KeyError
   \<and> check_duplicate_lead quiet_world empty_system limited_components None
        sample_lead = Inl NameError
   \<and> filter_duplicates quiet_world empty_system limited_components None
        [sample_lead] = Inl NameError
   \<and> check_duplicate_lead (short_world\<lparr>find_one_raises := (\<lambda>_. True)\<rparr>) stored_system
        full_components None sample_lead = Inr False
   \<and> check_duplicate_lead (short_world\<lparr>find_one_raises := (\<lambda>_. True)\<rparr>) stored_system
        full_components (Some [urlless_lead]) sample_lead = Inl NameError"
proof -
  have a: "find_one_raises lookup_down_world ''http://x/1''
     \<and> url (hd (leads stored_system)) = Some ''http://x/1''
     \<and> query_raises lookup_down_world unit_vector"
    by (simp add: world_defs lookup_down_world_def stored_system_def)
  have b: "generate_embedding lookup_down_world ''Acme Acme raises Series B'' = Inr unit_vector"
    by (simp add: string_defs store_defs world_defs lookup_down_world_def)
  have c: "generate_embedding short_world ''Acme Acme raises Series B'' = Inl ValueError"
    by (simp add: string_defs store_defs world_defs)
  have c': "generate_embedding (short_world\<lparr>find_one_raises := (\<lambda>_. True)\<rparr>)
      (lead_text_of ''Acme'' ''Acme raises'' (get_default (description sample_lead) []))
      = Inl ValueError"
    by (simp add: string_defs store_defs world_defs)
  have d: "check_duplicate_lead_body quiet_world empty_system full_components
        (Some [urlless_lead]) sample_lead = Inl KeyError"
    by (simp add: check_duplicate_lead_body_def string_defs store_defs world_defs
          urlless_lead_def)
  have f: "has_db full_components \<and> has_vector_store full_components
      \<and> url sample_lead = Some ''http://x/1'' \<and> company sample_lead = Some ''Acme''
      \<and> title sample_lead = Some ''Acme raises''
      \<and> find_one_raises (short_world\<lparr>find_one_raises := (\<lambda>_. True)\<rparr>) ''http://x/1''"
    by (simp add: world_defs)
  have g: "sample_lead \<in> set [sample_lead] \<and> sample_lead \<in> set [other_lead, sample_lead]"
    by simp
  have h: "scan_pending [urlless_lead] ''http://x/1'' = Inl KeyError"
    by (simp add: urlless_lead_def getitem_def)
  have s1: "get_lead_by_url lookup_down_world stored_system ''http://x/1'' = None
     \<and> check_duplicate lookup_down_world stored_system ''Acme Acme raises Series B''
          SIMILARITY_THRESHOLD = None"
    using a b
      duplicate_check_handler_raises [of lookup_down_world "''http://x/1''" stored_system
        "''Acme Acme raises Series B''" ValueError SIMILARITY_THRESHOLD unit_vector]
    by blast
  have s2: "check_duplicate short_world stored_system ''Acme Acme raises Series B''
          SIMILARITY_THRESHOLD = None"
    using c
      duplicate_check_handler_raises [of short_world "''http://x/1''" stored_system
        "''Acme Acme raises Series B''" ValueError SIMILARITY_THRESHOLD unit_vector]
    by blast
  have s3: "check_duplicate_lead quiet_world empty_system full_components
        (Some [urlless_lead]) sample_lead = Inl NameError
     \<and> filter_duplicates quiet_world empty_system full_components
        (Some [urlless_lead]) [sample_lead] = Inl NameError
     \<and> filter_duplicates quiet_world empty_system full_components
        (Some [urlless_lead]) [other_lead, sample_lead] = Inl NameError"
    using d g
      duplicate_check_handler_raises [of quiet_world "''http://x/1''" empty_system
        "''Acme Acme raises Series B''" KeyError SIMILARITY_THRESHOLD unit_vector
        full_components "Some [urlless_lead]" sample_lead "''Acme''" "''Acme raises''"]
    by blast
  have d': "check_duplicate_lead_body quiet_world empty_system limited_components None
        sample_lead = Inl KeyError"
    by (simp add: check_duplicate_lead_body_def limited_components_def)
  have s3': "check_duplicate_lead quiet_world empty_system limited_components None
        sample_lead = Inl NameError
     \<and> filter_duplicates quiet_world empty_system limited_components None
        [sample_lead] = Inl NameError"
    using d' g
      duplicate_check_handler_raises [of quiet_world "''http://x/1''" empty_system
        "''Acme Acme raises Series B''" KeyError SIMILARITY_THRESHOLD unit_vector
        limited_components None sample_lead "''Acme''" "''Acme raises''"]
    by blast
  have s4: "check_duplicate_lead (short_world\<lparr>find_one_raises := (\<lambda>_. True)\<rparr>) stored_system
        full_components None sample_lead = Inr False"
    using c' f
      duplicate_check_handler_raises [of "short_world\<lparr>find_one_raises := (\<lambda>_. True)\<rparr>"
        "''http://x/1''" stored_system
        "''Acme Acme raises Series B''" ValueError SIMILARITY_THRESHOLD unit_vector
        full_components None sample_lead "''Acme''" "''Acme raises''"]
    by simp
  have s5: "check_duplicate_lead (short_world\<lparr>find_one_raises := (\<lambda>_. True)\<rparr>) stored_system
        full_components (Some [urlless_lead]) sample_lead = Inl NameError"
    using c' f h
      duplicate_check_handler_raises [of "short_world\<lparr>find_one_raises := (\<lambda>_. True)\<rparr>"
        "''http://x/1''" stored_system
        "''Acme Acme raises Series B''" ValueError SIMILARITY_THRESHOLD unit_vector
        full_components "Some [urlless_lead]" sample_lead "''Acme''" "''Acme raises''"]
    by simp
  show ?thesis using a b c d d' s1 s2 s3 s3' s4 s5 by blast
qed

subsection \<open>Compensating delete\<close>

lemma process_and_store_lead_compensates:
  assumes "url lead = Some u" and "company lead = Some c" and "title lead = Some t"
    and "lead_id lead = Some i"
    and "get_lead_by_url w st u = None"
    and "generate_embedding w (lead_text_of c t (get_default (description lead) [])) = Inr e"
    and "check_duplicate w st (lead_text_of c t (get_default (description lead) []))
           SIMILARITY_THRESHOLD = None"
    and "store_lead w st lead e = (st1, Some stored)"
    and "i = [] \<or> upsert_raises w i"
  shows "process_and_store_lead w st lead
       = (if delete_one_raises w i then st1
          else st1\<lparr>leads := remove_first (\<lambda>d. lead_id d = Some i) (leads st1)\<rparr>, False)"
  using assms
  by (simp add: process_and_store_lead_def getitem_def Let_def insert_vector_fails
        delete_one_def)

lemma process_lead_compensates:
  assumes "lead1 = (if lead_id lead = None then lead\<lparr>lead_id := Some (uuid4 w 0)\<rparr> else lead)"
    and "lead_id lead1 = Some i"
    and "title lead1 = Some t" and "company lead1 = Some c"
    and "check_duplicate w st t SIMILARITY_THRESHOLD = None"
    and "relevance = evaluate_article_relevance w c t (get_default (description lead1) [])"
    and "is_relevant relevance" and "70 \<le> rel_score relevance"
    and "csm = evaluate_csm_value w c t (get_default (description lead1) [])"
    and "is_valuable csm" and "value_type csm \<noteq> [''none'']"
    and "generate_embedding w (lead_text_of c t (get_default (description lead1) [])) = Inr e"
    and "store_lead w st (lead_update lead1 relevance csm) e = (st1, Some stored)"
    and "i = [] \<or> upsert_raises w i"
  shows "process_lead w st lead
       = (if delete_one_raises w i then st1
          else st1\<lparr>leads := remove_first (\<lambda>d. lead_id d = Some i) (leads st1)\<rparr>, False)"
proof -
  have u: "url (lead_update lead1 relevance csm) \<noteq> None"
    using store_lead_Some [OF assms(13)] by simp
  then obtain u where u': "url lead1 = Some u" by auto
  have rel: "\<not> rel_score (evaluate_article_relevance w c t (get_default (description lead1) []))
          < 70"
    using assms(6,8) by simp
  show ?thesis
    using assms(2-5,7,9-14) u' rel
    unfolding assms(6) assms(9) process_lead_def assms(1) [symmetric] Let_def
    by (simp add: getitem_def insert_vector_fails delete_one_def)
qed

lemma restore_after_delete:
  assumes "leads st1 = leads st @ [stored]" and "lead_id stored = Some i"
    and "st1 = st\<lparr>leads := leads st @ [stored]\<rparr>"
    and "Some i \<notin> set (map lead_id (leads st))"
  shows "st1\<lparr>leads := remove_first (\<lambda>d. lead_id d = Some i) (leads st1)\<rparr> = st"
proof -
  have "remove_first (\<lambda>d. lead_id d = Some i) (leads st @ [stored]) = leads st"
    using assms(2,4) by (intro remove_first_append_fresh) force+
  then show ?thesis using assms(1,3) by simp
qed

text \<open>
  C1, as it holds. Take a lead that passes the checks before the stores, whose
  document-store insert returns the stored record, and whose vector-index insert then
  fails (the id is empty or the upsert raises). The commit, \<^verbatim>\<open>process_and_store_lead\<close> and
  \<^verbatim>\<open>process_lead\<close> alike, reports failure, the index is not written, and the commit issues
  \<^verbatim>\<open>delete_one\<close> for the lead's id \<open>i\<close>. When that delete raises, the record just inserted
  stays in the store. When it does not raise, the first stored record with id \<open>i\<close> is
  removed; if no record carried the id before, that is the record just inserted: the
  stores are back as they were, and no record of id \<open>i\<close> exists.
\<close>

theorem compensating_delete:
  "(url lead = Some u \<and> company lead = Some c \<and> title lead = Some t \<and> lead_id lead = Some i
      \<and> get_lead_by_url w st u = None
      \<and> generate_embedding w (lead_text_of c t (get_default (description lead) [])) = Inr e
      \<and> check_duplicate w st (lead_text_of c t (get_default (description lead) []))
           SIMILARITY_THRESHOLD = None
      \<and> store_lead w st lead e = (st1, Some stored)
      \<and> (i = [] \<or> upsert_raises w i)
    \<longrightarrow>
      st1 = st\<lparr>leads := leads st @ [stored]\<rparr> \<and> lead_id stored = Some i
      \<and> insert_vector w st1 i e md = (st1, False)
      \<and> process_and_store_lead w st lead
          = (if delete_one_raises w i then st1
             else st1\<lparr>leads := remove_first (\<lambda>d. lead_id d = Some i) (leads st1)\<rparr>, False)
      \<and> (\<not> delete_one_raises w i \<and> Some i \<notin> set (map lead_id (leads st)) \<longrightarrow>
            process_and_store_lead w st lead = (st, False)
            \<and> Some i \<notin> set (map lead_id (leads (fst (process_and_store_lead w st lead))))))
   \<and> (lead1 = (if lead_id lead = None then lead\<lparr>lead_id := Some (uuid4 w 0)\<rparr> else lead)
      \<and> lead_id lead1 = Some i \<and> title lead1 = Some t \<and> company lead1 = Some c
      \<and> check_duplicate w st t SIMILARITY_THRESHOLD = None
      \<and> relevance = evaluate_article_relevance w c t (get_default (description lead1) [])
      \<and> is_relevant relevance \<and> 70 \<le> rel_score relevance
      \<and> csm = evaluate_csm_value w c t (get_default (description lead1) [])
      \<and> is_valuable csm \<and> value_type csm \<noteq> [''none'']
      \<and> generate_embedding w (lead_text_of c t (get_default (description lead1) [])) = Inr e
      \<and> store_lead w st (lead_update lead1 relevance csm) e = (st1, Some stored)
      \<and> (i = [] \<or> upsert_raises w i)
    \<longrightarrow>
      st1 = st\<lparr>leads := leads st @ [stored]\<rparr> \<and> lead_id stored = Some i
      \<and> insert_vector w st1 i e md = (st1, False)
      \<and> process_lead w st lead
          = (if delete_one_raises w i then st1
             else st1\<lparr>leads := remove_first (\<lambda>d. lead_id d = Some i) (leads st1)\<rparr>, False)
      \<and> (\<not> delete_one_raises w i \<and> Some i \<notin> set (map lead_id (leads st)) \<longrightarrow>
            process_lead w st lead = (st, False)
            \<and> Some i \<notin> set (map lead_id (leads (fst (process_lead w st lead))))))"
proof (intro conjI impI)
  assume a: "url lead = Some u \<and> company lead = Some c \<and> title lead = Some t
      \<and> lead_id lead = Some i
      \<and> get_lead_by_url w st u = None
      \<and> generate_embedding w (lead_text_of c t (get_default (description lead) [])) = Inr e
      \<and> check_duplicate w st (lead_text_of c t (get_default (description lead) []))
           SIMILARITY_THRESHOLD = None
      \<and> store_lead w st lead e = (st1, Some stored)
      \<and> (i = [] \<or> upsert_raises w i)"
  then have h: "url lead = Some u" "company lead = Some c" "title lead = Some t"
      "lead_id lead = Some i" "get_lead_by_url w st u = None"
      "generate_embedding w (lead_text_of c t (get_default (description lead) [])) = Inr e"
      "check_duplicate w st (lead_text_of c t (get_default (description lead) []))
           SIMILARITY_THRESHOLD = None"
      "store_lead w st lead e = (st1, Some stored)"
      "i = [] \<or> upsert_raises w i"
    by blast+
  note s = h(8)
  show st1: "st1 = st\<lparr>leads := leads st @ [stored]\<rparr>"
    using store_lead_Some [OF s] by simp
  show i: "lead_id stored = Some i"
    using store_lead_Some [OF s] h by simp
  show "insert_vector w st1 i e md = (st1, False)"
    using h by (simp add: insert_vector_fails)
  show r: "process_and_store_lead w st lead
          = (if delete_one_raises w i then st1
             else st1\<lparr>leads := remove_first (\<lambda>d. lead_id d = Some i) (leads st1)\<rparr>, False)"
    by (rule process_and_store_lead_compensates [OF h])
  have l: "leads st1 = leads st @ [stored]" using st1 by simp
  {
    assume b: "\<not> delete_one_raises w i \<and> Some i \<notin> set (map lead_id (leads st))"
    then have "st1\<lparr>leads := remove_first (\<lambda>d. lead_id d = Some i) (leads st1)\<rparr> = st"
      using restore_after_delete [OF l i st1] by simp
    then show f: "process_and_store_lead w st lead = (st, False)" using r b by simp
    show "Some i \<notin> set (map lead_id (leads (fst (process_and_store_lead w st lead))))"
      using f b by simp
  }
next
  assume a: "lead1 = (if lead_id lead = None then lead\<lparr>lead_id := Some (uuid4 w 0)\<rparr> else lead)
      \<and> lead_id lead1 = Some i \<and> title lead1 = Some t \<and> company lead1 = Some c
      \<and> check_duplicate w st t SIMILARITY_THRESHOLD = None
      \<and> relevance = evaluate_article_relevance w c t (get_default (description lead1) [])
      \<and> is_relevant relevance \<and> 70 \<le> rel_score relevance
      \<and> csm = evaluate_csm_value w c t (get_default (description lead1) [])
      \<and> is_valuable csm \<and> value_type csm \<noteq> [''none'']
      \<and> generate_embedding w (lead_text_of c t (get_default (description lead1) [])) = Inr e
      \<and> store_lead w st (lead_update lead1 relevance csm) e = (st1, Some stored)
      \<and> (i = [] \<or> upsert_raises w i)"
  then have h: "lead1 = (if lead_id lead = None then lead\<lparr>lead_id := Some (uuid4 w 0)\<rparr> else lead)"
      "lead_id lead1 = Some i" "title lead1 = Some t" "company lead1 = Some c"
      "check_duplicate w st t SIMILARITY_THRESHOLD = None"
      "relevance = evaluate_article_relevance w c t (get_default (description lead1) [])"
      "is_relevant relevance" "70 \<le> rel_score relevance"
      "csm = evaluate_csm_value w c t (get_default (description lead1) [])"
      "is_valuable csm" "value_type csm \<noteq> [''none'']"
      "generate_embedding w (lead_text_of c t (get_default (description lead1) [])) = Inr e"
      "store_lead w st (lead_update lead1 relevance csm) e = (st1, Some stored)"
      "i = [] \<or> upsert_raises w i"
    by blast+
  note s = h(13)
  show st1: "st1 = st\<lparr>leads := leads st @ [stored]\<rparr>"
    using store_lead_Some [OF s] by simp
  show i: "lead_id stored = Some i"
    using store_lead_Some [OF s] h by simp
  show "insert_vector w st1 i e md = (st1, False)"
    using h by (simp add: insert_vector_fails)
  show r: "process_lead w st lead
          = (if delete_one_raises w i then st1
             else st1\<lparr>leads := remove_first (\<lambda>d. lead_id d = Some i) (leads st1)\<rparr>, False)"
    by (rule process_lead_compensates [OF h])
  have l: "leads st1 = leads st @ [stored]" using st1 by simp
  {
    assume b: "\<not> delete_one_raises w i \<and> Some i \<notin> set (map lead_id (leads st))"
    then have "st1\<lparr>leads := remove_first (\<lambda>d. lead_id d = Some i) (leads st1)\<rparr> = st"
      using restore_after_delete [OF l i st1] by simp
    then show f: "process_lead w st lead = (st, False)" using r b by simp
    show "Some i \<notin> set (map lead_id (leads (fst (process_lead w st lead))))"
      using f b by simp
  }
qed


lemmas down_defs =
  process_and_store_lead_def process_lead_def lead_update_def index_down_world_def
  stuck_world_def aged_system_def

theorem compensating_delete_witness:
  "lead_id sample_lead = Some ''L1''
   \<and> snd (store_lead index_down_world empty_system sample_lead unit_vector) \<noteq> None
   \<and> upsert_raises index_down_world ''L1''
   \<and> Some ''L1'' \<notin> set (map lead_id (leads empty_system))
   \<and> process_and_store_lead index_down_world empty_system sample_lead = (empty_system, False)
   \<and> process_lead index_down_world empty_system sample_lead = (empty_system, False)
   \<and> snd (store_lead stuck_world empty_system sample_lead unit_vector) \<noteq> None
   \<and> upsert_raises stuck_world ''L1'' \<and> delete_one_raises stuck_world ''L1''
   \<and> fst (store_lead stuck_world empty_system sample_lead unit_vector) \<noteq> empty_system
   \<and> process_and_store_lead stuck_world empty_system sample_lead
       = (fst (store_lead stuck_world empty_system sample_lead unit_vector), False)
   \<and> process_lead stuck_world empty_system sample_lead
       = (fst (store_lead stuck_world empty_system
            (lead_update sample_lead
               (evaluate_article_relevance stuck_world ''Acme'' ''Acme raises''
                  (get_default (description sample_lead) []))
               (evaluate_csm_value stuck_world ''Acme'' ''Acme raises''
                  (get_default (description sample_lead) [])))
            unit_vector), False)"
proof -
  let ?d = "get_default (description sample_lead) []"
  let ?txt = "lead_text_of ''Acme'' ''Acme raises'' ?d"
  let ?rel = "\<lambda>w. evaluate_article_relevance w ''Acme'' ''Acme raises'' ?d"
  let ?csm = "\<lambda>w. evaluate_csm_value w ''Acme'' ''Acme raises'' ?d"
  let ?graded = "\<lambda>w. lead_update sample_lead (?rel w) (?csm w)"
  let ?s1 = "\<lambda>w l. fst (store_lead w empty_system l unit_vector)"
  let ?r1 = "\<lambda>w l. the (snd (store_lead w empty_system l unit_vector))"
  have l: "url sample_lead = Some ''http://x/1'' \<and> company sample_lead = Some ''Acme''
      \<and> title sample_lead = Some ''Acme raises'' \<and> lead_id sample_lead = Some ''L1''
      \<and> sample_lead = (if lead_id sample_lead = None
            then sample_lead\<lparr>lead_id := Some (uuid4 index_down_world 0)\<rparr> else sample_lead)
      \<and> sample_lead = (if lead_id sample_lead = None
            then sample_lead\<lparr>lead_id := Some (uuid4 stuck_world 0)\<rparr> else sample_lead)
      \<and> Some ''L1'' \<notin> set (map lead_id (leads empty_system))"
    by (simp add: world_defs)
  have sw: "upsert_raises index_down_world ''L1'' \<and> \<not> delete_one_raises index_down_world ''L1''
      \<and> upsert_raises stuck_world ''L1'' \<and> delete_one_raises stuck_world ''L1''"
    by (simp add: world_defs down_defs)
  have look: "get_lead_by_url index_down_world empty_system ''http://x/1'' = None
      \<and> get_lead_by_url stuck_world empty_system ''http://x/1'' = None"
    by (simp add: store_defs world_defs down_defs)
  have emb: "generate_embedding index_down_world ?txt = Inr unit_vector
      \<and> generate_embedding stuck_world ?txt = Inr unit_vector"
    by (simp add: string_defs store_defs world_defs down_defs)
  have dup: "check_duplicate index_down_world empty_system ?txt SIMILARITY_THRESHOLD = None
      \<and> check_duplicate stuck_world empty_system ?txt SIMILARITY_THRESHOLD = None
      \<and> check_duplicate index_down_world empty_system ''Acme raises'' SIMILARITY_THRESHOLD = None
      \<and> check_duplicate stuck_world empty_system ''Acme raises'' SIMILARITY_THRESHOLD = None"
    by (simp add: string_defs store_defs world_defs down_defs)
  have gates: "is_relevant (?rel index_down_world) \<and> 70 \<le> rel_score (?rel index_down_world)
      \<and> is_valuable (?csm index_down_world) \<and> value_type (?csm index_down_world) \<noteq> [''none'']
      \<and> is_relevant (?rel stuck_world) \<and> 70 \<le> rel_score (?rel stuck_world)
      \<and> is_valuable (?csm stuck_world) \<and> value_type (?csm stuck_world) \<noteq> [''none'']"
    by (simp add: string_defs evaluator_defs world_defs down_defs)
  have st_a: "snd (store_lead index_down_world empty_system sample_lead unit_vector) \<noteq> None"
    by (simp add: string_defs store_defs world_defs down_defs Let_def)
  have st_b: "snd (store_lead stuck_world empty_system sample_lead unit_vector) \<noteq> None
      \<and> fst (store_lead stuck_world empty_system sample_lead unit_vector) \<noteq> empty_system"
    by (simp add: string_defs store_defs world_defs down_defs Let_def)
  have st_c: "snd (store_lead index_down_world empty_system (?graded index_down_world)
                unit_vector) \<noteq> None"
    by (simp add: string_defs store_defs evaluator_defs world_defs down_defs Let_def)
  have st_d: "snd (store_lead stuck_world empty_system (?graded stuck_world) unit_vector) \<noteq> None"
    by (simp add: string_defs store_defs evaluator_defs world_defs down_defs Let_def)
  have pair: "\<And>w l. snd (store_lead w empty_system l unit_vector) \<noteq> None \<Longrightarrow>
      store_lead w empty_system l unit_vector = (?s1 w l, Some (?r1 w l))"
    by (auto simp: prod_eq_iff)
  note p_a = pair [OF st_a] and p_b = pair [OF conjunct1 [OF st_b]]
    and p_c = pair [OF st_c] and p_d = pair [OF st_d]
  have a: "process_and_store_lead index_down_world empty_system sample_lead
      = (empty_system, False)"
    using l sw look emb dup p_a
      compensating_delete [of sample_lead "''http://x/1''" "''Acme''" "''Acme raises''"
        "''L1''" index_down_world empty_system unit_vector
        "?s1 index_down_world sample_lead" "?r1 index_down_world sample_lead"]
    by blast
  have b: "process_and_store_lead stuck_world empty_system sample_lead
      = (?s1 stuck_world sample_lead, False)"
    using l sw look emb dup p_b
      compensating_delete [of sample_lead "''http://x/1''" "''Acme''" "''Acme raises''"
        "''L1''" stuck_world empty_system unit_vector
        "?s1 stuck_world sample_lead" "?r1 stuck_world sample_lead"]
    by simp
  have c: "process_lead index_down_world empty_system sample_lead = (empty_system, False)"
    using l sw emb dup gates p_c
      compensating_delete [of sample_lead "''http://x/1''" "''Acme''" "''Acme raises''"
        "''L1''" index_down_world empty_system unit_vector
        "?s1 index_down_world (?graded index_down_world)"
        "?r1 index_down_world (?graded index_down_world)" _ sample_lead
        "?rel index_down_world" "?csm index_down_world"]
    by blast
  have d: "process_lead stuck_world empty_system sample_lead
      = (?s1 stuck_world (?graded stuck_world), False)"
    using l sw emb dup gates p_d
      compensating_delete [of sample_lead "''http://x/1''" "''Acme''" "''Acme raises''"
        "''L1''" stuck_world empty_system unit_vector
        "?s1 stuck_world (?graded stuck_world)"
        "?r1 stuck_world (?graded stuck_world)" _ sample_lead
        "?rel stuck_world" "?csm stuck_world"]
    by simp
  show ?thesis using l sw st_a st_b a b c d by blast
qed


text \<open>
  Two runs in which the document-store insert succeeds, the vector-index insert fails,
  and a record with the lead's id is in the store after the commit has returned False.
  In \<open>stuck_world\<close> the compensating delete raises and the handler of the commit swallows
  it. In \<open>aged_system\<close> an older record already carries the id: \<^verbatim>\<open>delete_one\<close> removes
  that one, and the record just inserted stays.
\<close>

theorem compensating_delete_counterexample:
  "lead_id sample_lead = Some ''L1''
   \<and> snd (store_lead stuck_world empty_system sample_lead unit_vector) \<noteq> None
   \<and> upsert_raises stuck_world ''L1'' \<and> delete_one_raises stuck_world ''L1''
   \<and> \<not> snd (process_and_store_lead stuck_world empty_system sample_lead)
   \<and> map lead_id (leads (fst (process_and_store_lead stuck_world empty_system sample_lead)))
       = [Some ''L1'']
   \<and> \<not> snd (process_lead stuck_world empty_system sample_lead)
   \<and> map lead_id (leads (fst (process_lead stuck_world empty_system sample_lead)))
       = [Some ''L1'']
   \<and> map lead_id (leads aged_system) = [Some ''L1'']
   \<and> map url (leads aged_system) = [Some ''http://old/0'']
   \<and> snd (store_lead index_down_world aged_system sample_lead unit_vector) \<noteq> None
   \<and> upsert_raises index_down_world ''L1'' \<and> \<not> delete_one_raises index_down_world ''L1''
   \<and> \<not> snd (process_and_store_lead index_down_world aged_system sample_lead)
   \<and> map lead_id (leads (fst (process_and_store_lead index_down_world aged_system sample_lead)))
       = [Some ''L1'']
   \<and> map url (leads (fst (process_and_store_lead index_down_world aged_system sample_lead)))
       = [Some ''http://x/1'']
   \<and> \<not> snd (process_lead index_down_world aged_system sample_lead)
   \<and> map url (leads (fst (process_lead index_down_world aged_system sample_lead)))
       = [Some ''http://x/1'']"
proof -
  have a: "lead_id sample_lead = Some ''L1''
     \<and> upsert_raises stuck_world ''L1'' \<and> delete_one_raises stuck_world ''L1''
     \<and> upsert_raises index_down_world ''L1'' \<and> \<not> delete_one_raises index_down_world ''L1''
     \<and> map lead_id (leads aged_system) = [Some ''L1'']
     \<and> map url (leads aged_system) = [Some ''http://old/0'']"
    by (simp add: world_defs down_defs)
  have b: "snd (store_lead stuck_world empty_system sample_lead unit_vector) \<noteq> None"
    by (simp add: string_defs store_defs world_defs down_defs Let_def)
  have c: "snd (store_lead index_down_world aged_system sample_lead unit_vector) \<noteq> None"
    by (simp add: string_defs store_defs world_defs down_defs Let_def)
  have d: "\<not> snd (process_and_store_lead stuck_world empty_system sample_lead)
     \<and> map lead_id (leads (fst (process_and_store_lead stuck_world empty_system sample_lead)))
       = [Some ''L1'']"
    by (simp add: string_defs store_defs world_defs down_defs Let_def)
  have e: "\<not> snd (process_lead stuck_world empty_system sample_lead)
     \<and> map lead_id (leads (fst (process_lead stuck_world empty_system sample_lead)))
       = [Some ''L1'']"
    by (simp add: string_defs store_defs evaluator_defs world_defs down_defs Let_def)
  have f: "\<not> snd (process_and_store_lead index_down_world aged_system sample_lead)
     \<and> map lead_id (leads (fst (process_and_store_lead index_down_world aged_system
          sample_lead))) = [Some ''L1'']
     \<and> map url (leads (fst (process_and_store_lead index_down_world aged_system sample_lead)))
       = [Some ''http://x/1'']"
    by (simp add: string_defs store_defs world_defs down_defs Let_def)
  have g: "\<not> snd (process_lead index_down_world aged_system sample_lead)
     \<and> map url (leads (fst (process_lead index_down_world aged_system sample_lead)))
       = [Some ''http://x/1'']"
    by (simp add: string_defs store_defs evaluator_defs world_defs down_defs Let_def)
  show ?thesis using a b c d e f g by blast
qed

subsection \<open>Semantic duplicates\<close>
























end
